theory Spec2Isabelle
  imports Complex_Main "HOL-Library.Word"
begin

section \<open>The gain plugins of StreamKit: a native C plugin and a component-model C plugin\<close>

text \<open>
  Two files are embedded: \<^verbatim>\<open>examples/plugins/gain-native-c/gain_plugin.c\<close> (the flat
  call table, with the types of \<^verbatim>\<open>streamkit_plugin.h\<close>) and
  \<^verbatim>\<open>examples/plugins/gain-wasm-c/gain_plugin.c\<close> (the resource style binding).
  Pointers that the code tests against \<^verbatim>\<open>NULL\<close> are options, the instance state is
  passed explicitly and returned updated, and every call of the output callback is
  recorded in the list that a process function returns beside its result.
  Log calls build a message and hand it to the host; they touch neither the instance
  state nor the output callback and are left out.
\<close>

subsection \<open>Single precision values\<close>

text \<open>
  A C \<^verbatim>\<open>float\<close> is a finite number, an infinity or a NaN. A finite value is
  represented by the real number it denotes. The comparisons follow IEEE 754: every
  comparison with a NaN is false. An arithmetic operation rounds its exact result to
  single precision (to nearest, ties to even) and overflows to an infinity. The sign
  of zero is not modelled.
\<close>

datatype f32 = Fin real | PInf | NInf | NaN

fun flt :: "f32 \<Rightarrow> f32 \<Rightarrow> bool" where
  "flt NaN _ = False"
| "flt _ NaN = False"
| "flt (Fin a) (Fin b) = (a < b)"
| "flt (Fin _) PInf = True"
| "flt (Fin _) NInf = False"
| "flt PInf _ = False"
| "flt NInf (Fin _) = True"
| "flt NInf PInf = True"
| "flt NInf NInf = False"

definition fgt :: "f32 \<Rightarrow> f32 \<Rightarrow> bool" where
  "fgt a b = flt b a"

definition fle :: "f32 \<Rightarrow> f32 \<Rightarrow> bool" where
  "fle a b = (flt a b \<or> (a = b \<and> a \<noteq> NaN))"

text \<open>The sign of an infinite product or quotient.\<close>

definition signed_inf :: "bool \<Rightarrow> f32" where
  "signed_inf positive = (if positive then PInf else NInf)"

text \<open>
  Rounding to nearest, ties to even. A single precision value has 24 significant bits
  and an exponent from -126 to 127: in the binade of \<open>x\<close> the values are the multiples
  of \<open>2 powi (f32_exponent x - 23)\<close>, and below \<open>2 powi (- 126)\<close> (the subnormal
  range) the multiples of \<open>2 powi (- 149)\<close>. A result that rounds to \<open>2 ^ 128\<close> or
  beyond is an infinity.
\<close>

definition round_half_even :: "real \<Rightarrow> int" where
  "round_half_even q =
     (let f = \<lfloor>q\<rfloor>; r = q - of_int f
      in if r < 1 / 2 then f else if 1 / 2 < r then f + 1
         else if even f then f else f + 1)"

definition f32_exponent :: "real \<Rightarrow> int" where
  "f32_exponent x = max (- 126) \<lfloor>log 2 \<bar>x\<bar>\<rfloor>"

definition round_f32 :: "real \<Rightarrow> f32" where
  "round_f32 x =
     (if x = 0 then Fin 0
      else
        let u = 2 powi (f32_exponent x - 23);
            y = of_int (round_half_even (x / u)) * u
        in if 2 ^ 128 \<le> \<bar>y\<bar> then signed_inf (0 < x) else Fin y)"

text \<open>The finite single precision values.\<close>

definition is_f32 :: "real \<Rightarrow> bool" where
  "is_f32 x = (\<exists>m e. x = of_int m * 2 powi e \<and> \<bar>m\<bar> < 2 ^ 24 \<and> - 149 \<le> e \<and> e \<le> 104)"

fun fmul :: "f32 \<Rightarrow> f32 \<Rightarrow> f32" where
  "fmul NaN _ = NaN"
| "fmul _ NaN = NaN"
| "fmul (Fin a) (Fin b) = round_f32 (a * b)"
| "fmul (Fin a) PInf = (if a = 0 then NaN else signed_inf (0 < a))"
| "fmul (Fin a) NInf = (if a = 0 then NaN else signed_inf (a < 0))"
| "fmul PInf (Fin b) = (if b = 0 then NaN else signed_inf (0 < b))"
| "fmul NInf (Fin b) = (if b = 0 then NaN else signed_inf (b < 0))"
| "fmul PInf PInf = PInf"
| "fmul PInf NInf = NInf"
| "fmul NInf PInf = NInf"
| "fmul NInf NInf = PInf"

text \<open>Division; a zero divisor is taken as \<open>+0\<close>.\<close>

fun fdiv :: "f32 \<Rightarrow> f32 \<Rightarrow> f32" where
  "fdiv NaN _ = NaN"
| "fdiv _ NaN = NaN"
| "fdiv (Fin a) (Fin b) =
     (if b = 0 then (if a = 0 then NaN else signed_inf (0 < a)) else round_f32 (a / b))"
| "fdiv (Fin _) PInf = Fin 0"
| "fdiv (Fin _) NInf = Fin 0"
| "fdiv PInf (Fin b) = signed_inf (0 \<le> b)"
| "fdiv NInf (Fin b) = signed_inf (b < 0)"
| "fdiv PInf _ = NaN"
| "fdiv NInf _ = NaN"

text \<open>
  \<^verbatim>\<open>powf(10.0f, y)\<close>, the only use of \<^verbatim>\<open>powf\<close> in the sources (C Annex F: a base
  above 1 gives \<open>+\<infinity>\<close> at \<open>+\<infinity>\<close> and \<open>+0\<close> at \<open>-\<infinity>\<close>, and every base gives
  1 at 0). The power is rounded to nearest; a C library may be off by a unit in the
  last place at other arguments.
\<close>

fun powf_10 :: "f32 \<Rightarrow> f32" where
  "powf_10 (Fin y) = round_f32 (10 powr y)"
| "powf_10 PInf = PInf"
| "powf_10 NInf = Fin 0"
| "powf_10 NaN = NaN"

subsection \<open>C strings\<close>

text \<open>
  A C string is the list of its characters before the terminating NUL; a pointer into
  the string is the suffix that starts there, and a \<^verbatim>\<open>char*\<close> that may be
  \<^verbatim>\<open>NULL\<close> is a \<open>string option\<close>.
\<close>

text \<open>\<^verbatim>\<open>strstr\<close>: the suffix at the first occurrence of the needle, or \<^verbatim>\<open>NULL\<close>.\<close>

fun strstr :: "string \<Rightarrow> string \<Rightarrow> string option" where
  "strstr [] needle = (if needle = [] then Some [] else None)"
| "strstr (c # cs) needle =
     (if take (length needle) (c # cs) = needle then Some (c # cs) else strstr cs needle)"

text \<open>\<^verbatim>\<open>strchr\<close> for a character other than NUL.\<close>

fun strchr :: "string \<Rightarrow> char \<Rightarrow> string option" where
  "strchr [] ch = None"
| "strchr (c # cs) ch = (if c = ch then Some (c # cs) else strchr cs ch)"

subsection \<open>The native plugin ABI (\<^verbatim>\<open>streamkit_plugin.h\<close>)\<close>

record CResult =
  success :: bool
  error_message :: "string option"

definition CResult_success :: CResult where
  "CResult_success = \<lparr>success = True, error_message = None\<rparr>"

definition CResult_error :: "string \<Rightarrow> CResult" where
  "CResult_error msg = \<lparr>success = False, error_message = Some msg\<rparr>"

datatype CPacketType =
    PACKET_TYPE_RAW_AUDIO
  | PACKET_TYPE_OPUS_AUDIO
  | PACKET_TYPE_TEXT
  | PACKET_TYPE_TRANSCRIPTION
  | PACKET_TYPE_CUSTOM
  | PACKET_TYPE_BINARY
  | PACKET_TYPE_ANY
  | PACKET_TYPE_PASSTHROUGH

text \<open>
  \<open>samples\<close> is the borrowed array behind the pointer (\<open>None\<close> for \<^verbatim>\<open>NULL\<close>);
  \<open>sample_count\<close> is a field of its own, as in the struct. \<^verbatim>\<open>size_t\<close> is a natural
  number: an array that is held in memory has fewer than \<^verbatim>\<open>SIZE_MAX / sizeof(float)\<close>
  elements, so the size computed for the output buffer does not wrap.
\<close>

record CAudioFrame =
  sample_rate :: "32 word"
  channels :: "16 word"
  samples :: "f32 list option"
  sample_count :: nat

text \<open>
  \<open>data\<close> is the \<^verbatim>\<open>void*\<close> of the packet. The plugin reads it only as a
  \<^verbatim>\<open>CAudioFrame*\<close> and only for a raw audio packet.
\<close>

record CPacket =
  packet_type :: CPacketType
  data :: "CAudioFrame option"
  len :: nat

type_synonym COutputCallback = "string \<Rightarrow> CPacket \<Rightarrow> CResult"

text \<open>\<^verbatim>\<open>sizeof(float)\<close> and \<^verbatim>\<open>sizeof(CAudioFrame)\<close> on an LP64 target.\<close>

definition sizeof_float :: nat where
  "sizeof_float = 4"

definition sizeof_CAudioFrame :: nat where
  "sizeof_CAudioFrame = 24"

subsection \<open>The native gain plugin\<close>

definition DEFAULT_GAIN :: f32 where
  "DEFAULT_GAIN = Fin 1"

definition MIN_GAIN :: f32 where
  "MIN_GAIN = Fin 0"

definition MAX_GAIN :: f32 where
  "MAX_GAIN = Fin 4"

text \<open>The function pointer \<open>log_cb\<close> and \<open>log_user_data\<close> are kept as addresses.\<close>

record GainPluginState =
  gain :: f32
  log_cb :: "nat option"
  log_user_data :: nat

type_synonym CPluginHandle = "GainPluginState option"

text \<open>
  \<^verbatim>\<open>strtof\<close> belongs to the C library, so \<open>parse_gain\<close> takes it as a parameter: applied
  to the text at \<open>p\<close> it gives the value and the number of characters converted
  (\<^verbatim>\<open>end - p\<close>), which is 0 when no number was found.
\<close>

type_synonym strtof_t = "string \<Rightarrow> f32 \<times> nat"

definition parse_gain :: "strtof_t \<Rightarrow> string option \<Rightarrow> f32" where
  "parse_gain strtof json =
     (case json of
        None \<Rightarrow> DEFAULT_GAIN
      | Some js \<Rightarrow>
          if js = [] then DEFAULT_GAIN
          else
            (case strstr js ''\"gain\"'' of
               None \<Rightarrow> DEFAULT_GAIN
             | Some key \<Rightarrow>
                 let p = dropWhile (\<lambda>c. c = CHR '' '' \<or> c = CHR 0x09 \<or> c = CHR '':'')
                           (drop (length ''\"gain\"'') key);
                     (val, consumed) = strtof p
                 in if consumed = 0 then DEFAULT_GAIN
                    else
                      let val = (if flt val MIN_GAIN then MIN_GAIN else val);
                          val = (if fgt val MAX_GAIN then MAX_GAIN else val)
                      in val))"

text \<open>
  \<open>malloc\<close> tells, for a requested size, whether the allocator returns a block; the
  instance is created only then.
\<close>

definition sizeof_GainPluginState :: nat where
  "sizeof_GainPluginState = 24"

definition gain_create_instance ::
  "strtof_t \<Rightarrow> (nat \<Rightarrow> bool) \<Rightarrow> string option \<Rightarrow> nat option \<Rightarrow> nat \<Rightarrow> CPluginHandle" where
  "gain_create_instance strtof malloc params log_callback log_user_data' =
     (if \<not> malloc sizeof_GainPluginState then None
      else Some \<lparr>gain = parse_gain strtof params,
                 log_cb = log_callback, log_user_data = log_user_data'\<rparr>)"

text \<open>
  The loop of \<open>gain_process_packet\<close>: \<open>out\<close> holds the samples written so far. Reading
  past the end of the input array is undefined behaviour (\<open>None\<close>).
\<close>

function gain_loop :: "nat \<Rightarrow> nat \<Rightarrow> f32 list \<Rightarrow> f32 \<Rightarrow> f32 list \<Rightarrow> f32 list option" where
  "gain_loop i n inp g out =
     (if i < n then
        (if i < length inp then gain_loop (Suc i) n inp g (out @ [fmul (inp ! i) g])
         else None)
      else Some out)"
  by pat_completeness auto
termination
  by (relation "measure (\<lambda>(i, n, inp, g, out). n - i)") auto

declare gain_loop.simps [simp del]

definition gain_process_packet ::
  "(nat \<Rightarrow> bool) \<Rightarrow> CPluginHandle \<Rightarrow> string \<Rightarrow> CPacket \<Rightarrow> COutputCallback
     \<Rightarrow> (CResult \<times> (string \<times> CPacket) list) option" where
  "gain_process_packet malloc handle input_pin packet output_callback =
     (case handle of
        None \<Rightarrow> Some (CResult_error ''Null handle'', [])
      | Some state \<Rightarrow>
          if packet_type packet \<noteq> PACKET_TYPE_RAW_AUDIO
          then Some (CResult_error ''Gain plugin only accepts audio packets'', [])
          else
            (case data packet of
               None \<Rightarrow> Some (CResult_error ''Invalid audio frame'', [])
             | Some input_frame \<Rightarrow>
                 (case samples input_frame of
                    None \<Rightarrow> Some (CResult_error ''Invalid audio frame'', [])
                  | Some inp \<Rightarrow>
                      if \<not> malloc (sample_count input_frame * sizeof_float)
                      then Some (CResult_error ''Failed to allocate output buffer'', [])
                      else
                        (case gain_loop 0 (sample_count input_frame) inp (gain state) [] of
                           None \<Rightarrow> None
                         | Some output_samples \<Rightarrow>
                             let output_frame =
                                   \<lparr>sample_rate = sample_rate input_frame,
                                    channels = channels input_frame,
                                    samples = Some output_samples,
                                    sample_count = sample_count input_frame\<rparr>;
                                 output_packet =
                                   \<lparr>packet_type = PACKET_TYPE_RAW_AUDIO,
                                    data = Some output_frame,
                                    len = sizeof_CAudioFrame\<rparr>
                             in Some (output_callback ''out'' output_packet,
                                      [(''out'', output_packet)])))))"

text \<open>The result and the instance after the call (the state is updated in place).\<close>

definition gain_update_params ::
  "strtof_t \<Rightarrow> CPluginHandle \<Rightarrow> string option \<Rightarrow> CResult \<times> CPluginHandle" where
  "gain_update_params strtof handle params =
     (case handle of
        None \<Rightarrow> (CResult_error ''Null handle'', None)
      | Some state \<Rightarrow>
          (CResult_success, Some (state\<lparr>gain := parse_gain strtof params\<rparr>)))"

definition gain_flush ::
  "CPluginHandle \<Rightarrow> COutputCallback \<Rightarrow> CResult \<times> (string \<times> CPacket) list" where
  "gain_flush handle output_callback = (CResult_success, [])"

subsection \<open>The component-model gain plugin\<close>

definition MIN_GAIN_DB :: f32 where
  "MIN_GAIN_DB = Fin (- 60)"

definition MAX_GAIN_DB :: f32 where
  "MAX_GAIN_DB = Fin 20"

record gain_state_t =
  gain_linear :: f32

definition clamp_f32 :: "f32 \<Rightarrow> f32 \<Rightarrow> f32 \<Rightarrow> f32" where
  "clamp_f32 val mn mx = (if flt val mn then mn else if fgt val mx then mx else val)"

definition db_to_linear :: "f32 \<Rightarrow> f32" where
  "db_to_linear db = powf_10 (fdiv db (Fin 20))"

text \<open>
  \<^verbatim>\<open>sscanf(s, "%f", &value)\<close> belongs to the C library and is a parameter: \<open>Some v\<close>
  when it returns 1 and stores \<open>v\<close>, \<open>None\<close> otherwise.
\<close>

type_synonym sscanf_t = "string \<Rightarrow> f32 option"

definition parse_gain_db :: "sscanf_t \<Rightarrow> string option \<Rightarrow> nat \<Rightarrow> f32" where
  "parse_gain_db sscanf json_str n =
     (case json_str of
        None \<Rightarrow> Fin 0
      | Some js \<Rightarrow>
          if n = 0 then Fin 0
          else
            (case strstr js ''\"gain_db\"'' of
               None \<Rightarrow> Fin 0
             | Some pos \<Rightarrow>
                 (case strchr pos (CHR '':'') of
                    None \<Rightarrow> Fin 0
                  | Some pos' \<Rightarrow>
                      (case sscanf (tl pos') of
                         Some val \<Rightarrow> val
                       | None \<Rightarrow> Fin 0))))"

text \<open>
  Modelled from the spec: the header \<^verbatim>\<open>plugin.h\<close> that \<^verbatim>\<open>wit-bindgen\<close> generates is
  not among the sources; the types below have the fields that \<^verbatim>\<open>gain_plugin.c\<close> reads.
  A \<^verbatim>\<open>plugin_string_t\<close> is a pointer and a length (fields \<^verbatim>\<open>ptr\<close> and
  \<^verbatim>\<open>len\<close>); the bytes at the pointer are read as a C string.
\<close>

record plugin_string_t =
  str_ptr :: "string option"
  str_len :: nat

text \<open>
  Modelled from the spec: the audio frame and the packet of \<^verbatim>\<open>plugin.h\<close>. A frame has
  the fields \<^verbatim>\<open>sample_rate\<close>, \<^verbatim>\<open>channels\<close> and \<^verbatim>\<open>samples\<close>; the list of samples
  has its length with it. A packet is a variant: the case \<^verbatim>\<open>audio\<close>, or any other
  case, of which only the tag is kept.
\<close>

record audio_frame_t =
  frame_sample_rate :: "32 word"
  frame_channels :: "16 word"
  frame_samples :: "f32 list"

datatype packet_t = PACKET_AUDIO audio_frame_t | PACKET_OTHER nat

text \<open>
  Modelled from the spec: the host function \<^verbatim>\<open>streamkit_plugin_host_send_output\<close>
  returns a flag and the error string it stored. A method of the plugin returns its
  flag and the string it wrote to \<^verbatim>\<open>*err\<close>, if any.
\<close>

type_synonym send_output_t = "string \<Rightarrow> packet_t \<Rightarrow> bool \<times> string"

definition sizeof_gain_state_t :: nat where
  "sizeof_gain_state_t = 4"

definition exports_streamkit_plugin_node_constructor_node_instance ::
  "sscanf_t \<Rightarrow> (nat \<Rightarrow> bool) \<Rightarrow> plugin_string_t option \<Rightarrow> gain_state_t option" where
  "exports_streamkit_plugin_node_constructor_node_instance sscanf malloc maybe_params =
     (if \<not> malloc sizeof_gain_state_t then None
      else
        let gain_db =
              (case maybe_params of
                 None \<Rightarrow> Fin 0
               | Some params \<Rightarrow>
                   if str_ptr params \<noteq> None \<and> 0 < str_len params
                   then clamp_f32 (parse_gain_db sscanf (str_ptr params) (str_len params))
                          MIN_GAIN_DB MAX_GAIN_DB
                   else Fin 0)
        in Some \<lparr>gain_linear = db_to_linear gain_db\<rparr>)"

text \<open>The loop of the process method scales the samples of the packet in place.\<close>

function scale_loop :: "nat \<Rightarrow> f32 list \<Rightarrow> f32 \<Rightarrow> f32 list" where
  "scale_loop i xs g =
     (if i < length xs then scale_loop (Suc i) (xs[i := fmul (xs ! i) g]) g else xs)"
  by pat_completeness auto
termination
  by (relation "measure (\<lambda>(i, xs, g). length xs - i)") auto

declare scale_loop.simps [simp del]

definition exports_streamkit_plugin_node_method_node_instance_process ::
  "gain_state_t \<Rightarrow> string \<Rightarrow> packet_t \<Rightarrow> send_output_t
     \<Rightarrow> (bool \<times> string option) \<times> (string \<times> packet_t) list" where
  "exports_streamkit_plugin_node_method_node_instance_process state input_pin packet send_output =
     (case packet of
        PACKET_OTHER t \<Rightarrow> ((False, Some ''Gain filter only accepts audio packets''), [])
      | PACKET_AUDIO audio \<Rightarrow>
          let audio' = audio\<lparr>frame_samples :=
                               scale_loop 0 (frame_samples audio) (gain_linear state)\<rparr>;
              packet' = PACKET_AUDIO audio';
              (send_ok, send_err) = send_output ''out'' packet'
          in if \<not> send_ok then ((False, Some send_err), [(''out'', packet')])
             else ((True, None), [(''out'', packet')]))"

definition exports_streamkit_plugin_node_method_node_instance_update_params ::
  "sscanf_t \<Rightarrow> gain_state_t \<Rightarrow> plugin_string_t option
     \<Rightarrow> (bool \<times> string option) \<times> gain_state_t" where
  "exports_streamkit_plugin_node_method_node_instance_update_params sscanf state maybe_params =
     (case maybe_params of
        None \<Rightarrow> ((True, None), state)
      | Some params \<Rightarrow>
          if str_ptr params = None \<or> str_len params = 0 then ((True, None), state)
          else
            let gain_db = parse_gain_db sscanf (str_ptr params) (str_len params);
                gain_db = clamp_f32 gain_db MIN_GAIN_DB MAX_GAIN_DB
            in ((True, None), state\<lparr>gain_linear := db_to_linear gain_db\<rparr>))"

text \<open>
  The cleanup method and the destructor act on the allocator. The heap maps the address
  of every live block to the state held there and logs the blocks that \<^verbatim>\<open>free\<close>
  released; address 0 is \<^verbatim>\<open>NULL\<close>. Freeing an address that is not live (a second
  \<^verbatim>\<open>free\<close> of a block) is undefined behaviour: \<open>None\<close>.
\<close>

record heap =
  live :: "nat \<rightharpoonup> gain_state_t"
  freed :: "nat list"

definition c_free :: "nat \<Rightarrow> heap \<Rightarrow> heap option" where
  "c_free p h =
     (if p = 0 then Some h
      else if live h p = None then None
      else Some (h\<lparr>live := (live h)(p := None), freed := freed h @ [p]\<rparr>))"

definition exports_streamkit_plugin_node_method_node_instance_cleanup ::
  "nat \<Rightarrow> heap \<Rightarrow> heap option" where
  "exports_streamkit_plugin_node_method_node_instance_cleanup self h = c_free self h"

definition exports_streamkit_plugin_node_node_instance_destructor ::
  "nat \<Rightarrow> heap \<Rightarrow> heap option" where
  "exports_streamkit_plugin_node_node_instance_destructor rep h = Some h"

subsection \<open>The number conversions of the C library at concrete inputs\<close>

text \<open>
  A model of \<^verbatim>\<open>strtof\<close> after ISO C (7.20.1.3), for evaluating the plugins on
  concrete payloads: white space, a sign, then \<^verbatim>\<open>INF\<close> or \<^verbatim>\<open>INFINITY\<close> or
  \<^verbatim>\<open>NAN\<close> in any case, or a decimal number with an optional fraction and exponent.
  The value is rounded to single precision; the hexadecimal form and \<^verbatim>\<open>NAN(...)\<close>
  are left out.
  The general theorems below do not use it: they hold for every \<open>strtof\<close>.
\<close>

definition isspace :: "char \<Rightarrow> bool" where
  "isspace c = (c \<in> set [CHR '' '', CHR 0x09, CHR 0x0A, CHR 0x0B, CHR 0x0C, CHR 0x0D])"

definition isdigit :: "char \<Rightarrow> bool" where
  "isdigit c = (c \<in> set ''0123456789'')"

definition tolower :: "char \<Rightarrow> char" where
  "tolower c =
     (if 65 \<le> (of_char c :: nat) \<and> (of_char c :: nat) \<le> 90
      then char_of ((of_char c :: nat) + 32) else c)"

definition digits_value :: "string \<Rightarrow> nat" where
  "digits_value ds = foldl (\<lambda>n c. 10 * n + ((of_char c :: nat) - 48)) 0 ds"

text \<open>An optional sign: whether it is a minus, and the rest.\<close>

fun take_sign :: "string \<Rightarrow> bool \<times> string" where
  "take_sign [] = (False, [])"
| "take_sign (c # cs) =
     (if c = CHR ''-'' then (True, cs) else if c = CHR ''+'' then (False, cs)
      else (False, c # cs))"

text \<open>The exponent part at \<open>s\<close>: its value and its length (0 when there is none).\<close>

definition exponent_part :: "string \<Rightarrow> int \<times> nat" where
  "exponent_part s =
     (case s of
        [] \<Rightarrow> (0, 0)
      | c # cs \<Rightarrow>
          if c = CHR ''e'' \<or> c = CHR ''E'' then
            (let (neg, r) = take_sign cs; ds = takeWhile isdigit r
             in if ds = [] then (0, 0)
                else ((if neg then - int (digits_value ds) else int (digits_value ds)),
                      1 + (length cs - length r) + length ds))
          else (0, 0))"

definition c_strtof :: strtof_t where
  "c_strtof s =
     (let s1 = dropWhile isspace s;
          (neg, s2) = take_sign s1;
          pre = length s - length s2;
          low = map tolower s2
      in if take 8 low = ''infinity'' then (signed_inf (\<not> neg), pre + 8)
         else if take 3 low = ''inf'' then (signed_inf (\<not> neg), pre + 3)
         else if take 3 low = ''nan'' then (NaN, pre + 3)
         else
           let ip = takeWhile isdigit s2;
               s3 = drop (length ip) s2;
               fp = (case s3 of [] \<Rightarrow> [] | c # cs \<Rightarrow>
                       if c = CHR ''.'' then takeWhile isdigit cs else []);
               dot = (case s3 of [] \<Rightarrow> 0 | c # cs \<Rightarrow> if c = CHR ''.'' then 1 else 0)
           in if ip = [] \<and> fp = [] then (Fin 0, 0)
              else
                let s4 = drop (dot + length fp) s3;
                    (ex, exlen) = exponent_part s4;
                    mant = real (digits_value ip)
                             + real (digits_value fp) / 10 ^ length fp;
                    v = (if ex < 0 then mant / 10 ^ nat (- ex) else mant * 10 ^ nat ex)
                in (round_f32 (if neg then - v else v),
                    pre + length ip + dot + length fp + exlen))"

text \<open>\<^verbatim>\<open>sscanf\<close> with \<^verbatim>\<open>"%f"\<close> accepts what \<^verbatim>\<open>strtof\<close> converts.\<close>

definition c_sscanf_f :: sscanf_t where
  "c_sscanf_f s = (case c_strtof s of (v, n) \<Rightarrow> if n = 0 then None else Some v)"

subsection \<open>The notions of the specification\<close>

text \<open>
  What a payload asks for, in the words of the specification: the number found after
  the key. There is none when the payload is absent or empty, when the key is missing
  and when no number can be converted at the value.
\<close>

definition requested_gain :: "strtof_t \<Rightarrow> string option \<Rightarrow> f32 option" where
  "requested_gain strtof params =
     (case params of
        None \<Rightarrow> None
      | Some js \<Rightarrow>
          if js = [] then None
          else
            (case strstr js ''\"gain\"'' of
               None \<Rightarrow> None
             | Some key \<Rightarrow>
                 let r = strtof (dropWhile (\<lambda>c. c = CHR '' '' \<or> c = CHR 0x09 \<or> c = CHR '':'')
                                   (drop (length ''\"gain\"'') key))
                 in if snd r = 0 then None else Some (fst r)))"

definition requested_gain_db :: "sscanf_t \<Rightarrow> plugin_string_t option \<Rightarrow> f32 option" where
  "requested_gain_db sscanf maybe_params =
     (case maybe_params of
        None \<Rightarrow> None
      | Some params \<Rightarrow>
          (case str_ptr params of
             None \<Rightarrow> None
           | Some js \<Rightarrow>
               if str_len params = 0 then None
               else
                 (case strstr js ''\"gain_db\"'' of
                    None \<Rightarrow> None
                  | Some pos \<Rightarrow>
                      (case strchr pos (CHR '':'') of
                         None \<Rightarrow> None
                       | Some pos' \<Rightarrow> sscanf (tl pos')))))"

text \<open>A payload of the resource binding that is absent or empty.\<close>

definition absent_or_empty :: "plugin_string_t option \<Rightarrow> bool" where
  "absent_or_empty maybe_params =
     (case maybe_params of
        None \<Rightarrow> True
      | Some params \<Rightarrow> str_ptr params = None \<or> str_len params = 0)"

text \<open>A value within the closed range from \<open>lo\<close> to \<open>hi\<close>; a NaN is in no range.\<close>

definition within_bounds :: "f32 \<Rightarrow> f32 \<Rightarrow> f32 \<Rightarrow> bool" where
  "within_bounds lo hi v = (fle lo v \<and> fle v hi)"

text \<open>An allocator that returns a block for every request.\<close>

definition always_allocates :: "nat \<Rightarrow> bool" where
  "always_allocates n = True"

text \<open>An allocator that has no memory left.\<close>

definition never_allocates :: "nat \<Rightarrow> bool" where
  "never_allocates n = False"

text \<open>An output callback that accepts every packet.\<close>

definition accepting_callback :: COutputCallback where
  "accepting_callback pin_name packet = CResult_success"

text \<open>A heap whose only live block is at \<open>p\<close>, with nothing freed yet.\<close>

definition one_block :: "nat \<Rightarrow> gain_state_t \<Rightarrow> heap" where
  "one_block p st = \<lparr>live = Map.empty(p \<mapsto> st), freed = []\<rparr>"

section \<open>Properties\<close>

subsection \<open>Rounding to single precision\<close>

lemma f32_exponent_binade:
  assumes "2 powi e \<le> \<bar>x\<bar>" and "\<bar>x\<bar> < 2 powi (e + 1)"
  shows "f32_exponent x = max (- 126) e"
proof -
  have "0 < (2::real) powi e" by simp
  with assms(1) have pos: "0 < \<bar>x\<bar>" by linarith
  have a: "(2::real) powr of_int e = 2 powi e"
    by (simp add: powr_real_of_int')
  have b: "(2::real) powr (of_int e + 1) = 2 powi (e + 1)"
    using powr_real_of_int' [of "2::real" "e + 1"] by simp
  have "\<lfloor>log 2 \<bar>x\<bar>\<rfloor> = e"
    using assms pos floor_log_eq_powr_iff [of "\<bar>x\<bar>" 2 e] a b by simp
  then show ?thesis by (simp add: f32_exponent_def)
qed

lemma f32_exponent_subnormal:
  assumes "x \<noteq> 0" and "\<bar>x\<bar> < 2 powi (- 126)"
  shows "f32_exponent x = - 126"
proof -
  have "log 2 \<bar>x\<bar> < - 126"
    using assms by (simp add: log_less_iff powr_minus)
  then have "\<lfloor>log 2 \<bar>x\<bar>\<rfloor> < - 126" by linarith
  then show ?thesis by (simp add: f32_exponent_def)
qed

lemma round_f32_binade:
  assumes "- 126 \<le> e" and "2 powi e \<le> \<bar>x\<bar>" and "\<bar>x\<bar> < 2 powi (e + 1)"
  shows "round_f32 x =
           (let u = 2 powi (e - 23); y = of_int (round_half_even (x / u)) * u
            in if 2 ^ 128 \<le> \<bar>y\<bar> then signed_inf (0 < x) else Fin y)"
proof -
  have "0 < (2::real) powi e" by simp
  with assms(2) have "0 < \<bar>x\<bar>" by linarith
  then have "x \<noteq> 0" by simp
  moreover have "f32_exponent x = e"
    using f32_exponent_binade [OF assms(2,3)] assms(1) by simp
  ultimately show ?thesis by (simp add: round_f32_def)
qed


lemma round_half_even_near: "\<bar>q - of_int (round_half_even q)\<bar> \<le> 1 / 2"
  using floor_correct [of q] by (auto simp: round_half_even_def Let_def)

lemma round_half_even_nearest:
  "\<bar>q - of_int (round_half_even q)\<bar> \<le> \<bar>q - of_int k\<bar>"
proof (cases "k = round_half_even q")
  case True
  then show ?thesis by simp
next
  case False
  then have "1 \<le> \<bar>round_half_even q - k\<bar>" by linarith
  then have "(1::real) \<le> \<bar>of_int (round_half_even q) - of_int k\<bar>"
    by (metis of_int_1_le_iff of_int_abs of_int_diff)
  with round_half_even_near [of q] show ?thesis by linarith
qed

lemma round_half_even_mono_bounds:
  assumes "of_int a \<le> q" and "q \<le> of_int b"
  shows "a \<le> round_half_even q" and "round_half_even q \<le> b"
proof -
  from assms(1) have fa: "a \<le> \<lfloor>q\<rfloor>" by (simp add: le_floor_iff)
  then show "a \<le> round_half_even q"
    by (auto simp: round_half_even_def Let_def)
  show "round_half_even q \<le> b"
  proof (cases "q = of_int b")
    case True
    then show ?thesis by (simp add: round_half_even_def Let_def)
  next
    case False
    with assms(2) have "q < of_int b" by simp
    then have "\<lfloor>q\<rfloor> < b" by (simp add: floor_less_iff)
    then show ?thesis by (auto simp: round_half_even_def Let_def)
  qed
qed

lemma round_half_even_strict_bounds:
  assumes "\<bar>q\<bar> < of_int b - 1 / 2"
  shows "\<bar>round_half_even q\<bar> < b"
proof -
  have up: "round_half_even q < b"
  proof -
    from assms have "q < of_int b - 1 / 2" by linarith
    then have "q < of_int b" by linarith
    then have fl: "\<lfloor>q\<rfloor> \<le> b - 1" by (simp add: floor_less_iff)
    show ?thesis
    proof (cases "\<lfloor>q\<rfloor> = b - 1")
      case True
      with \<open>q < of_int b - 1 / 2\<close> have "q - of_int \<lfloor>q\<rfloor> < 1 / 2" by simp
      with True show ?thesis by (simp add: round_half_even_def Let_def)
    next
      case False
      with fl have "\<lfloor>q\<rfloor> \<le> b - 2" by linarith
      then show ?thesis by (auto simp: round_half_even_def Let_def)
    qed
  qed
  have lo: "- b < round_half_even q"
  proof -
    from assms have q: "- of_int b + 1 / 2 < q" by linarith
    then have "of_int (- b) \<le> q" by simp
    then have fl: "- b \<le> \<lfloor>q\<rfloor>" by (simp add: le_floor_iff)
    show ?thesis
    proof (cases "\<lfloor>q\<rfloor> = - b")
      case True
      with q have "1 / 2 < q - of_int \<lfloor>q\<rfloor>" by simp
      with True show ?thesis by (simp add: round_half_even_def Let_def)
    next
      case False
      with fl have "- b + 1 \<le> \<lfloor>q\<rfloor>" by linarith
      then show ?thesis by (auto simp: round_half_even_def Let_def)
    qed
  qed
  from up lo show ?thesis by linarith
qed

lemma f32_exponent_props:
  assumes "x \<noteq> 0"
  shows "- 126 \<le> f32_exponent x"
    and "\<bar>x\<bar> < 2 powi (f32_exponent x + 1)"
    and "- 126 < f32_exponent x \<Longrightarrow> 2 powi (f32_exponent x) \<le> \<bar>x\<bar>"
proof -
  define l where "l = \<lfloor>log 2 \<bar>x\<bar>\<rfloor>"
  have pos: "0 < \<bar>x\<bar>" using assms by simp
  have a: "(2::real) powr of_int l = 2 powi l"
    by (simp add: powr_real_of_int')
  have b: "(2::real) powr (of_int l + 1) = 2 powi (l + 1)"
    using powr_real_of_int' [of "2::real" "l + 1"] by simp
  have bin: "2 powi l \<le> \<bar>x\<bar>" "\<bar>x\<bar> < 2 powi (l + 1)"
    using floor_log_eq_powr_iff [of "\<bar>x\<bar>" 2 l] pos a b by (simp_all add: l_def)
  have e: "f32_exponent x = max (- 126) l"
    by (simp add: f32_exponent_def l_def)
  show "- 126 \<le> f32_exponent x" by (simp add: e)
  have "(2::real) powi (l + 1) \<le> 2 powi (max (- 126) l + 1)"
    by (rule power_int_increasing) simp_all
  with bin(2) show "\<bar>x\<bar> < 2 powi (f32_exponent x + 1)" by (simp add: e)
  assume "- 126 < f32_exponent x"
  then have "f32_exponent x = l" by (simp add: e)
  with bin(1) show "2 powi (f32_exponent x) \<le> \<bar>x\<bar>" by simp
qed


lemma real_of_int_le_pow2: "(k::int) \<le> 2 ^ m \<Longrightarrow> (of_int k :: real) \<le> 2 ^ m"
proof -
  assume "k \<le> 2 ^ m"
  then have "(of_int k :: real) \<le> of_int (2 ^ m)" by (simp only: of_int_le_iff)
  then show ?thesis by simp
qed

lemma real_of_int_ge_pow2: "2 ^ m \<le> (k::int) \<Longrightarrow> 2 ^ m \<le> (of_int k :: real)"
proof -
  assume "2 ^ m \<le> k"
  then have "(of_int (2 ^ m) :: real) \<le> of_int k" by (simp only: of_int_le_iff)
  then show ?thesis by simp
qed

lemma real_of_int_less_pow2: "(k::int) < 2 ^ m \<Longrightarrow> (of_int k :: real) < 2 ^ m"
proof -
  assume "k < 2 ^ m"
  then have "(of_int k :: real) < of_int (2 ^ m)" by (simp only: of_int_less_iff)
  then show ?thesis by simp
qed

lemma is_f32_zero: "is_f32 0"
  unfolding is_f32_def by (rule exI [of _ 0], rule exI [of _ 0]) simp

theorem round_f32_nearest:
  assumes small: "\<bar>x\<bar> < 2 ^ 128 - 2 ^ 103"
  shows "\<exists>y. round_f32 x = Fin y \<and> is_f32 y \<and> (\<forall>z. is_f32 z \<longrightarrow> \<bar>x - y\<bar> \<le> \<bar>x - z\<bar>)"
proof (cases "x = 0")
  case True
  then show ?thesis by (simp add: round_f32_def is_f32_zero)
next
  case False
  define e where "e = f32_exponent x"
  define u :: real where "u = 2 powi (e - 23)"
  define q where "q = x / u"
  define n where "n = round_half_even q"
  define y where "y = of_int n * u"
  have u_pos: "0 < u" by (simp add: u_def)
  have e_lo: "- 126 \<le> e"
    and x_hi: "\<bar>x\<bar> < 2 powi (e + 1)"
    and x_lo: "- 126 < e \<Longrightarrow> 2 powi e \<le> \<bar>x\<bar>"
    using f32_exponent_props [OF False] by (simp_all add: e_def)
  have pow24: "(2::real) powi (e + 1) = 2 ^ 24 * u"
    using power_int_add [of "2::real" "e - 23" 24]
    by (simp add: u_def mult.commute add.commute)
  have pow23: "(2::real) powi e = 2 ^ 23 * u"
    using power_int_add [of "2::real" "e - 23" 23] by (simp add: u_def mult.commute)
  have x_eq: "x = q * u" using u_pos by (simp add: q_def)
  have e_hi: "e \<le> 127"
  proof (rule ccontr)
    assume "\<not> e \<le> 127"
    then have "128 \<le> e" by simp
    then have "(2::real) powi 128 \<le> 2 powi e"
      by (intro power_int_increasing) simp_all
    moreover have "2 powi e \<le> \<bar>x\<bar>" using x_lo \<open>128 \<le> e\<close> by simp
    ultimately have "(2::real) ^ 128 \<le> \<bar>x\<bar>" by simp
    with small show False by simp
  qed
  have q_abs: "\<bar>q\<bar> < 2 ^ 24"
  proof -
    have "\<bar>q\<bar> * u = \<bar>x\<bar>" using u_pos by (simp add: x_eq abs_mult)
    with x_hi pow24 have "\<bar>q\<bar> * u < 2 ^ 24 * u" by simp
    with u_pos show ?thesis by simp
  qed
  have n_abs: "\<bar>n\<bar> \<le> 2 ^ 24"
  proof -
    have "of_int (- (2 ^ 24)) \<le> q" "q \<le> of_int (2 ^ 24)"
      using q_abs by simp_all
    from round_half_even_mono_bounds [OF this] show ?thesis
      by (simp add: n_def)
  qed
  have near: "\<bar>x - of_int n * u\<bar> \<le> \<bar>x - of_int k * u\<bar>" for k
  proof -
    have "\<bar>x - of_int j * u\<bar> = \<bar>q - of_int j\<bar> * u" for j
    proof -
      have "x - of_int j * u = (q - of_int j) * u"
        by (simp add: x_eq algebra_simps)
      then show ?thesis using u_pos by (simp add: abs_mult)
    qed
    moreover have "\<bar>q - of_int n\<bar> \<le> \<bar>q - of_int k\<bar>"
      unfolding n_def by (rule round_half_even_nearest)
    ultimately show ?thesis using u_pos by simp
  qed
  have top: "\<bar>n\<bar> < 2 ^ 24" if "e = 127"
  proof -
    have u104: "u = 2 ^ 104" using that by (simp add: u_def)
    have "\<bar>q\<bar> * u = \<bar>x\<bar>" using u_pos by (simp add: x_eq abs_mult)
    with small have "\<bar>q\<bar> * 2 ^ 104 < 2 ^ 128 - 2 ^ 103" by (simp add: u104)
    then have "\<bar>q\<bar> < of_int (2 ^ 24) - 1 / 2" by simp
    from round_half_even_strict_bounds [OF this] show ?thesis by (simp add: n_def)
  qed
  have y_abs: "\<bar>y\<bar> = of_int \<bar>n\<bar> * u" using u_pos by (simp add: y_def abs_mult)
  have no_overflow: "\<bar>y\<bar> < 2 ^ 128"
  proof (cases "e = 127")
    case True
    then have u104: "u = 2 ^ 104" by (simp add: u_def)
    from top [OF True] have "\<bar>n\<bar> + 1 \<le> 2 ^ 24" by simp
    then have "(of_int (\<bar>n\<bar> + 1) :: real) \<le> 2 ^ 24" by (rule real_of_int_le_pow2)
    then have "(of_int \<bar>n\<bar> :: real) \<le> 2 ^ 24 - 1" by simp
    then have "of_int \<bar>n\<bar> * u \<le> (2 ^ 24 - 1) * u"
      using u_pos by (simp add: mult_right_mono)
    then show ?thesis by (simp add: y_abs u104)
  next
    case False
    with e_hi have "e + 1 \<le> 127" by simp
    then have "(2::real) powi (e + 1) \<le> 2 powi 127"
      by (intro power_int_increasing) simp_all
    moreover have "(of_int \<bar>n\<bar> :: real) \<le> 2 ^ 24"
      using n_abs by (rule real_of_int_le_pow2)
    then have "of_int \<bar>n\<bar> * u \<le> 2 ^ 24 * u"
      using u_pos by (simp add: mult_right_mono)
    ultimately have "\<bar>y\<bar> \<le> 2 ^ 127" by (simp add: y_abs pow24)
    then show ?thesis by simp
  qed
  have result: "round_f32 x = Fin y"
    using False no_overflow
    by (simp add: round_f32_def Let_def e_def [symmetric] u_def [symmetric]
          q_def [symmetric] n_def [symmetric] y_def [symmetric])
  have rep: "is_f32 y"
  proof (cases "\<bar>n\<bar> < 2 ^ 24")
    case True
    have "y = of_int n * 2 powi (e - 23)" by (simp add: y_def u_def)
    moreover have "- 149 \<le> e - 23" "e - 23 \<le> 104" using e_lo e_hi by simp_all
    ultimately show ?thesis unfolding is_f32_def using True by blast
  next
    case False
    with n_abs have n24: "\<bar>n\<bar> = 2 ^ 24" by simp
    with top have "e \<noteq> 127" by auto
    with e_hi have e126: "e \<le> 126" by simp
    have u2: "(2::real) powi (e - 22) = 2 * u"
      using power_int_add [of "2::real" "e - 23" 1] by (simp add: u_def mult.commute)
    from n24 have "n = 2 ^ 24 \<or> n = - (2 ^ 24)" by linarith
    then have "y = of_int (n div 2) * 2 powi (e - 22) \<and> \<bar>n div 2\<bar> < 2 ^ 24"
      by (auto simp: y_def u2)
    moreover have "- 149 \<le> e - 22" "e - 22 \<le> 104" using e_lo e126 by simp_all
    ultimately show ?thesis unfolding is_f32_def by blast
  qed
  have nearest: "\<bar>x - y\<bar> \<le> \<bar>x - z\<bar>" if "is_f32 z" for z
  proof -
    from that obtain m k where z: "z = of_int m * 2 powi k" and m: "\<bar>m\<bar> < 2 ^ 24"
      and k: "- 149 \<le> k" "k \<le> 104"
      unfolding is_f32_def by blast
    show ?thesis
    proof (cases "e - 23 \<le> k")
      case True
      then obtain d where d: "k = e - 23 + int d"
        by (metis add.commute diff_ge_0_iff_ge le_add_diff_inverse nonneg_int_cases)
      have "(2::real) powi k = 2 ^ d * u"
        using power_int_add [of "2::real" "e - 23" "int d"] by (simp add: d u_def mult.commute)
      then have "z = of_int (m * 2 ^ d) * u" by (simp add: z)
      with near [of "m * 2 ^ d"] show ?thesis by (simp add: y_def)
    next
      case False
      then have ke: "k + 24 \<le> e" by simp
      with k(1) have "- 126 < e" by simp
      then have xl: "2 powi e \<le> \<bar>x\<bar>" by (rule x_lo)
      have "(of_int \<bar>m\<bar> :: real) < 2 ^ 24"
        using m by (rule real_of_int_less_pow2)
      then have "\<bar>z\<bar> < 2 ^ 24 * 2 powi k"
        by (simp add: z abs_mult)
      also have "\<dots> = 2 powi (k + 24)"
        using power_int_add [of "2::real" k 24] by simp
      also have "\<dots> \<le> 2 powi e"
        using ke by (intro power_int_increasing) simp_all
      finally have zl: "\<bar>z\<bar> < 2 powi e" .
      define s :: int where "s = (if 0 < x then 1 else - 1)"
      have w: "\<bar>x - of_int (s * 2 ^ 23) * u\<bar> = \<bar>x\<bar> - 2 powi e"
        using xl by (auto simp: s_def pow23)
      have "\<bar>x - y\<bar> \<le> \<bar>x - of_int (s * 2 ^ 23) * u\<bar>"
        unfolding y_def by (rule near)
      also have "\<dots> = \<bar>x\<bar> - 2 powi e" by (rule w)
      also have "\<dots> \<le> \<bar>x\<bar> - \<bar>z\<bar>" using zl by simp
      also have "\<dots> \<le> \<bar>x - z\<bar>" by simp
      finally show ?thesis .
    qed
  qed
  from result rep nearest show ?thesis by blast
qed

lemma round_half_even_ge:
  assumes "of_int b - 1 / 2 \<le> q" and "even b"
  shows "b \<le> round_half_even q"
proof -
  from assms(1) have "of_int (b - 1) \<le> q" by simp
  then have fl: "b - 1 \<le> \<lfloor>q\<rfloor>" by (simp add: le_floor_iff)
  show ?thesis
  proof (cases "\<lfloor>q\<rfloor> = b - 1")
    case True
    with assms(1) have "1 / 2 \<le> q - of_int \<lfloor>q\<rfloor>" by simp
    moreover from True assms(2) have "odd \<lfloor>q\<rfloor>" by simp
    ultimately show ?thesis using True by (auto simp: round_half_even_def Let_def)
  next
    case False
    with fl have "b \<le> \<lfloor>q\<rfloor>" by linarith
    then show ?thesis by (auto simp: round_half_even_def Let_def)
  qed
qed

lemma round_half_even_le:
  assumes "q \<le> of_int b + 1 / 2" and "even b"
  shows "round_half_even q \<le> b"
proof -
  from assms(1) have "\<lfloor>q\<rfloor> < b + 1" unfolding floor_less_iff by simp
  then have fl: "\<lfloor>q\<rfloor> \<le> b" by simp
  show ?thesis
  proof (cases "\<lfloor>q\<rfloor> = b")
    case True
    with assms(1) have "q - of_int \<lfloor>q\<rfloor> \<le> 1 / 2" by simp
    with True assms(2) show ?thesis by (auto simp: round_half_even_def Let_def)
  next
    case False
    with fl have "\<lfloor>q\<rfloor> \<le> b - 1" by linarith
    then show ?thesis by (auto simp: round_half_even_def Let_def)
  qed
qed

lemma round_f32_overflow:
  assumes big: "2 ^ 128 - 2 ^ 103 \<le> \<bar>x\<bar>"
  shows "round_f32 x = signed_inf (0 < x)"
proof -
  define e where "e = f32_exponent x"
  define u :: real where "u = 2 powi (e - 23)"
  define q where "q = x / u"
  define n where "n = round_half_even q"
  have nz: "x \<noteq> 0" using big by auto
  have u_pos: "0 < u" by (simp add: u_def)
  have x_eq: "x = q * u" using u_pos by (simp add: q_def)
  have x_hi: "\<bar>x\<bar> < 2 powi (e + 1)"
    and x_lo: "- 126 < e \<Longrightarrow> 2 powi e \<le> \<bar>x\<bar>"
    using f32_exponent_props [OF nz] by (simp_all add: e_def)
  have pow23: "(2::real) powi e = 2 ^ 23 * u"
    using power_int_add [of "2::real" "e - 23" 23] by (simp add: u_def mult.commute)
  have e127: "127 \<le> e"
  proof (rule ccontr)
    assume "\<not> 127 \<le> e"
    then have "e + 1 \<le> 127" by simp
    then have "(2::real) powi (e + 1) \<le> 2 powi 127"
      by (intro power_int_increasing) simp_all
    with x_hi have "\<bar>x\<bar> < 2 ^ 127" by simp
    with big show False by simp
  qed
  then have xl: "2 ^ 23 * u \<le> \<bar>x\<bar>" using x_lo pow23 by simp
  have bound: "2 ^ 128 \<le> of_int \<bar>n\<bar> * u"
  proof (cases "e = 127")
    case True
    then have u104: "u = 2 ^ 104" by (simp add: u_def)
    have "\<bar>q\<bar> * u = \<bar>x\<bar>" using u_pos by (simp add: x_eq abs_mult)
    with big have "2 ^ 128 - 2 ^ 103 \<le> \<bar>q\<bar> * 2 ^ 104" by (simp add: u104)
    then have qb: "of_int (2 ^ 24) - 1 / 2 \<le> \<bar>q\<bar>" by simp
    have "2 ^ 24 \<le> \<bar>n\<bar>"
    proof (cases "0 \<le> q")
      case True
      with qb have "of_int (2 ^ 24) - 1 / 2 \<le> q" by simp
      from round_half_even_ge [OF this] show ?thesis by (simp add: n_def)
    next
      case False
      with qb have "q \<le> of_int (- (2 ^ 24)) + 1 / 2" by simp
      from round_half_even_le [OF this] show ?thesis by (simp add: n_def)
    qed
    then have "(2::real) ^ 24 \<le> of_int \<bar>n\<bar>"
      by (rule real_of_int_ge_pow2)
    then have "2 ^ 24 * u \<le> of_int \<bar>n\<bar> * u"
      using u_pos by (simp add: mult_right_mono)
    then show ?thesis by (simp add: u104)
  next
    case False
    with e127 have "128 \<le> e" by simp
    then have "(2::real) powi 128 \<le> 2 powi e"
      by (intro power_int_increasing) simp_all
    then have p: "(2::real) ^ 128 \<le> 2 ^ 23 * u" by (simp add: pow23)
    have "\<bar>q\<bar> * u = \<bar>x\<bar>" using u_pos by (simp add: x_eq abs_mult)
    with xl have "2 ^ 23 * u \<le> \<bar>q\<bar> * u" by simp
    with u_pos have qb: "2 ^ 23 \<le> \<bar>q\<bar>" by simp
    have "2 ^ 23 \<le> \<bar>n\<bar>"
    proof (cases "0 \<le> q")
      case True
      with qb have "of_int (2 ^ 23) \<le> q" "q \<le> of_int (\<lfloor>q\<rfloor> + 1)" by simp_all
      from round_half_even_mono_bounds(1) [OF this] show ?thesis by (simp add: n_def)
    next
      case False
      with qb have "of_int \<lfloor>q\<rfloor> \<le> q" "q \<le> of_int (- (2 ^ 23))" by simp_all
      from round_half_even_mono_bounds(2) [OF this] show ?thesis by (simp add: n_def)
    qed
    then have "(2::real) ^ 23 \<le> of_int \<bar>n\<bar>"
      by (rule real_of_int_ge_pow2)
    then have "2 ^ 23 * u \<le> of_int \<bar>n\<bar> * u"
      using u_pos by (simp add: mult_right_mono)
    with p show ?thesis by linarith
  qed
  have "\<bar>of_int n * u\<bar> = of_int \<bar>n\<bar> * u" using u_pos by (simp add: abs_mult)
  with bound have "2 ^ 128 \<le> \<bar>of_int n * u\<bar>" by simp
  then show ?thesis
    using nz
    by (simp add: round_f32_def Let_def e_def [symmetric] u_def [symmetric]
          q_def [symmetric] n_def [symmetric])
qed

text \<open>
  The product of two finite values is the single precision value nearest to the exact
  product, and an infinity of its sign when the exact product is too large.
\<close>

lemma fmul_nearest:
  "\<bar>a * b\<bar> < 2 ^ 128 - 2 ^ 103 \<Longrightarrow>
   \<exists>y. fmul (Fin a) (Fin b) = Fin y \<and> is_f32 y \<and>
       (\<forall>z. is_f32 z \<longrightarrow> \<bar>a * b - y\<bar> \<le> \<bar>a * b - z\<bar>)"
  using round_f32_nearest [of "a * b"] by simp

lemma fmul_overflow:
  "2 ^ 128 - 2 ^ 103 \<le> \<bar>a * b\<bar> \<Longrightarrow> fmul (Fin a) (Fin b) = signed_inf (0 < a * b)"
  using round_f32_overflow [of "a * b"] by simp

lemma round_f32_values:
  "round_f32 0 = Fin 0"
  "round_f32 1 = Fin 1"
  "round_f32 2 = Fin 2"
  "round_f32 9 = Fin 9"
  "round_f32 (- 3) = Fin (- 3)"
  "round_f32 (- 80) = Fin (- 80)"
  "round_f32 (71 / 2) = Fin (71 / 2)"
  using round_f32_binade [of 0 1] round_f32_binade [of 1 2] round_f32_binade [of 3 9]
    round_f32_binade [of 1 "- 3"] round_f32_binade [of 6 "- 80"]
    round_f32_binade [of 5 "71 / 2"]
  by (simp_all add: round_f32_def round_half_even_def Let_def)

lemma fmul_examples:
  "fmul (Fin (1 / 2)) (Fin 3) = Fin (3 / 2)"
  "fmul (Fin (- (1 / 4))) (Fin 3) = Fin (- (3 / 4))"
  "fmul (Fin (8388609 / 8388608)) (Fin 3) = Fin (6291457 / 2097152)"
  "fmul (Fin (2 ^ 127)) (Fin 3) = PInf"
  using round_f32_binade [of 0 "3 / 2"] round_f32_binade [of "- 1" "- (3 / 4)"]
    round_f32_binade [of 1 "25165827 / 8388608"] round_f32_binade [of 128 "3 * 2 ^ 127"]
  by (simp_all add: round_half_even_def Let_def signed_inf_def)

subsection \<open>The two loops\<close>

lemma gain_loop_map:
  "i \<le> n \<Longrightarrow> n \<le> length inp \<Longrightarrow>
   gain_loop i n inp g out = Some (out @ map (\<lambda>s. fmul s g) (drop i (take n inp)))"
proof (induction i n inp g out rule: gain_loop.induct)
  case (1 i n inp g out)
  show ?case
  proof (cases "i < n")
    case True
    with "1.prems" have il: "i < length inp" by simp
    have step: "drop i (take n inp) = inp ! i # drop (Suc i) (take n inp)"
      using True il by (simp add: Cons_nth_drop_Suc [symmetric])
    have "gain_loop i n inp g out = gain_loop (Suc i) n inp g (out @ [fmul (inp ! i) g])"
      using True il by (simp add: gain_loop.simps [of i])
    also have "\<dots> = Some ((out @ [fmul (inp ! i) g])
                          @ map (\<lambda>s. fmul s g) (drop (Suc i) (take n inp)))"
      using "1.IH" [OF True il] True "1.prems" by simp
    finally show ?thesis by (simp add: step)
  next
    case False
    with "1.prems" have "i = n" by simp
    then show ?thesis by (subst gain_loop.simps) simp
  qed
qed

lemma gain_loop_out_of_range:
  "i \<le> length inp \<Longrightarrow> length inp < n \<Longrightarrow> gain_loop i n inp g out = None"
proof (induction i n inp g out rule: gain_loop.induct)
  case (1 i n inp g out)
  show ?case
  proof (cases "i < length inp")
    case True
    then show ?thesis using 1 by (subst gain_loop.simps) simp
  next
    case False
    then show ?thesis using "1.prems" by (subst gain_loop.simps) simp
  qed
qed

lemma scale_loop_map:
  "i \<le> length xs \<Longrightarrow> scale_loop i xs g = take i xs @ map (\<lambda>s. fmul s g) (drop i xs)"
proof (induction i xs g rule: scale_loop.induct)
  case (1 i xs g)
  show ?case
  proof (cases "i < length xs")
    case True
    have "scale_loop i xs g = scale_loop (Suc i) (xs[i := fmul (xs ! i) g]) g"
      using True by (simp add: scale_loop.simps [of i])
    also have "\<dots> = take (Suc i) (xs[i := fmul (xs ! i) g])
                      @ map (\<lambda>s. fmul s g) (drop (Suc i) (xs[i := fmul (xs ! i) g]))"
      using "1.IH" [OF True] True by simp
    also have "\<dots> = take i xs @ map (\<lambda>s. fmul s g) (drop i xs)"
      using True by (simp add: take_Suc_conv_app_nth Cons_nth_drop_Suc [symmetric])
    finally show ?thesis .
  next
    case False
    then show ?thesis using "1.prems" by (subst scale_loop.simps) simp
  qed
qed

subsection \<open>Parsing and clamping\<close>

lemma parse_gain_requested:
  "parse_gain strtof params =
     (case requested_gain strtof params of
        None \<Rightarrow> DEFAULT_GAIN
      | Some v \<Rightarrow>
          if flt v MIN_GAIN then (if fgt MIN_GAIN MAX_GAIN then MAX_GAIN else MIN_GAIN)
          else if fgt v MAX_GAIN then MAX_GAIN else v)"
  unfolding parse_gain_def requested_gain_def
  by (simp add: Let_def split_beta split: option.splits)

lemma parse_gain_db_requested:
  "str_ptr ps \<noteq> None \<Longrightarrow> 0 < str_len ps \<Longrightarrow>
   parse_gain_db sscanf (str_ptr ps) (str_len ps) =
     (case requested_gain_db sscanf (Some ps) of None \<Rightarrow> Fin 0 | Some v \<Rightarrow> v)"
  unfolding parse_gain_db_def requested_gain_db_def
  by (simp split: option.splits)

lemma requested_gain_db_absent:
  "absent_or_empty mp \<Longrightarrow> requested_gain_db sscanf mp = None"
  unfolding absent_or_empty_def requested_gain_db_def
  by (auto split: option.splits)

lemma flt_NaN_right [simp]: "flt a NaN = False"
  by (cases a) simp_all

lemma flt_asym: "flt a b \<Longrightarrow> \<not> flt b a"
  by (cases a; cases b) simp_all

lemma flt_irrefl: "\<not> flt a a"
  by (cases a) simp_all

lemma flt_trans: "flt a b \<Longrightarrow> flt b c \<Longrightarrow> flt a c"
  by (cases a; cases b; cases c) simp_all

lemma flt_MIN_MAX: "flt MIN_GAIN MAX_GAIN" "flt MIN_GAIN_DB MAX_GAIN_DB"
  by (simp_all add: MIN_GAIN_def MAX_GAIN_def MIN_GAIN_DB_def MAX_GAIN_DB_def)

lemma clamp_f32_below: "flt v lo \<Longrightarrow> clamp_f32 v lo hi = lo"
  by (simp add: clamp_f32_def)

lemma clamp_f32_above:
  assumes "flt lo hi" and "fgt v hi"
  shows "clamp_f32 v lo hi = hi"
proof -
  from assms have "flt lo v" by (auto simp: fgt_def intro: flt_trans)
  then have "\<not> flt v lo" by (rule flt_asym)
  with assms(2) show ?thesis by (simp add: clamp_f32_def)
qed

lemma clamp_f32_NaN: "clamp_f32 NaN lo hi = NaN"
  by (simp add: clamp_f32_def fgt_def)

lemma db_to_linear_zero: "db_to_linear (Fin 0) = Fin 1"
  by (simp add: db_to_linear_def round_f32_values)


subsection \<open>Processing a packet\<close>

lemma gain_process_packet_audio:
  assumes "packet_type packet = PACKET_TYPE_RAW_AUDIO"
    and "data packet = Some frame"
    and "samples frame = Some S"
    and "sample_count frame = length S"
    and "malloc (length S * sizeof_float)"
  shows "gain_process_packet malloc (Some state) pin packet cb =
           (let out = \<lparr>packet_type = PACKET_TYPE_RAW_AUDIO,
                       data = Some \<lparr>sample_rate = sample_rate frame,
                                    channels = channels frame,
                                    samples = Some (map (\<lambda>s. fmul s (gain state)) S),
                                    sample_count = length S\<rparr>,
                       len = sizeof_CAudioFrame\<rparr>
            in Some (cb ''out'' out, [(''out'', out)]))"
proof -
  have "gain_loop 0 (length S) S (gain state) [] = Some (map (\<lambda>s. fmul s (gain state)) S)"
    using gain_loop_map [of 0 "length S" S "gain state" "[]"] by simp
  with assms show ?thesis
    by (simp add: gain_process_packet_def Let_def)
qed

lemma process_audio:
  "exports_streamkit_plugin_node_method_node_instance_process state pin (PACKET_AUDIO audio) send =
     (let out = PACKET_AUDIO \<lparr>frame_sample_rate = frame_sample_rate audio,
                              frame_channels = frame_channels audio,
                              frame_samples = map (\<lambda>s. fmul s (gain_linear state))
                                                (frame_samples audio)\<rparr>
      in ((fst (send ''out'' out),
           if fst (send ''out'' out) then None else Some (snd (send ''out'' out))),
          [(''out'', out)]))"
proof (cases audio)
  case (fields rate chans xs)
  have "scale_loop 0 xs (gain_linear state) = map (\<lambda>s. fmul s (gain_linear state)) xs"
    using scale_loop_map [of 0 xs "gain_linear state"] by simp
  with fields show ?thesis
    by (simp add: exports_streamkit_plugin_node_method_node_instance_process_def Let_def
          split_beta)
qed

lemma gain_process_packet_no_buffer:
  assumes "packet_type packet = PACKET_TYPE_RAW_AUDIO"
    and "data packet = Some frame"
    and "samples frame = Some S"
    and "sample_count frame = length S"
    and "\<not> malloc (length S * sizeof_float)"
  shows "gain_process_packet malloc (Some state) pin packet cb =
           Some (\<lparr>success = False,
                  error_message = Some ''Failed to allocate output buffer''\<rparr>, [])"
  using assms by (simp add: gain_process_packet_def CResult_error_def)

text \<open>
  C1, as the code has it. For an instance with gain \<open>g\<close> and a raw audio packet that
  carries the sample array \<open>S\<close>, the process function calls the output callback exactly
  once, on the pin \<^verbatim>\<open>out\<close>, with a raw audio packet whose samples are those of \<open>S\<close>, each
  multiplied by \<open>g\<close> in single precision, and whose sample rate, channel count and sample
  count are those of the input; it returns what the callback returns, so it succeeds
  when the callback does. The native plugin does so when the allocator returns the
  output buffer; when it does not, the native process function returns the failure
  \<^verbatim>\<open>Failed to allocate output buffer\<close> and calls the callback zero times. A product of
  finite values is the single precision value nearest to the exact product, and an
  infinity when the exact product is too large.
\<close>

theorem process_scales_samples:
  assumes "packet_type packet = PACKET_TYPE_RAW_AUDIO"
    and "data packet = Some frame"
    and "samples frame = Some S"
    and "sample_count frame = length S"
  shows "(malloc (length S * sizeof_float) \<longrightarrow>
            gain_process_packet malloc (Some state) pin packet cb =
              (let out = \<lparr>packet_type = PACKET_TYPE_RAW_AUDIO,
                          data = Some \<lparr>sample_rate = sample_rate frame,
                                       channels = channels frame,
                                       samples = Some (map (\<lambda>s. fmul s (gain state)) S),
                                       sample_count = sample_count frame\<rparr>,
                          len = sizeof_CAudioFrame\<rparr>
               in Some (cb ''out'' out, [(''out'', out)])))
         \<and> (\<not> malloc (length S * sizeof_float) \<longrightarrow>
            gain_process_packet malloc (Some state) pin packet cb =
              Some (\<lparr>success = False,
                     error_message = Some ''Failed to allocate output buffer''\<rparr>, []))
         \<and> exports_streamkit_plugin_node_method_node_instance_process wstate wpin
             (PACKET_AUDIO audio) send =
           (let out = PACKET_AUDIO
                        \<lparr>frame_sample_rate = frame_sample_rate audio,
                         frame_channels = frame_channels audio,
                         frame_samples = map (\<lambda>s. fmul s (gain_linear wstate))
                                           (frame_samples audio)\<rparr>
            in ((fst (send ''out'' out),
                 if fst (send ''out'' out) then None else Some (snd (send ''out'' out))),
                [(''out'', out)]))
         \<and> (\<forall>a b. \<bar>a * b\<bar> < 2 ^ 128 - 2 ^ 103 \<longrightarrow>
                (\<exists>y. fmul (Fin a) (Fin b) = Fin y \<and> is_f32 y \<and>
                     (\<forall>z. is_f32 z \<longrightarrow> \<bar>a * b - y\<bar> \<le> \<bar>a * b - z\<bar>)))
         \<and> (\<forall>a b. 2 ^ 128 - 2 ^ 103 \<le> \<bar>a * b\<bar> \<longrightarrow>
                fmul (Fin a) (Fin b) = signed_inf (0 < a * b))"
proof (intro conjI impI allI)
  assume "malloc (length S * sizeof_float)"
  with assms gain_process_packet_audio [of packet frame S malloc state pin cb]
  show "gain_process_packet malloc (Some state) pin packet cb =
          (let out = \<lparr>packet_type = PACKET_TYPE_RAW_AUDIO,
                      data = Some \<lparr>sample_rate = sample_rate frame,
                                   channels = channels frame,
                                   samples = Some (map (\<lambda>s. fmul s (gain state)) S),
                                   sample_count = sample_count frame\<rparr>,
                      len = sizeof_CAudioFrame\<rparr>
           in Some (cb ''out'' out, [(''out'', out)]))"
    by simp
next
  assume "\<not> malloc (length S * sizeof_float)"
  with assms show "gain_process_packet malloc (Some state) pin packet cb =
      Some (\<lparr>success = False,
             error_message = Some ''Failed to allocate output buffer''\<rparr>, [])"
    by (rule gain_process_packet_no_buffer)
next
  show "exports_streamkit_plugin_node_method_node_instance_process wstate wpin
          (PACKET_AUDIO audio) send =
        (let out = PACKET_AUDIO
                     \<lparr>frame_sample_rate = frame_sample_rate audio,
                      frame_channels = frame_channels audio,
                      frame_samples = map (\<lambda>s. fmul s (gain_linear wstate))
                                        (frame_samples audio)\<rparr>
         in ((fst (send ''out'' out),
              if fst (send ''out'' out) then None else Some (snd (send ''out'' out))),
             [(''out'', out)]))"
    by (rule process_audio)
next
  fix a b :: real
  assume "\<bar>a * b\<bar> < 2 ^ 128 - 2 ^ 103"
  then show "\<exists>y. fmul (Fin a) (Fin b) = Fin y \<and> is_f32 y \<and>
                (\<forall>z. is_f32 z \<longrightarrow> \<bar>a * b - y\<bar> \<le> \<bar>a * b - z\<bar>)"
    by (rule fmul_nearest)
next
  fix a b :: real
  assume "2 ^ 128 - 2 ^ 103 \<le> \<bar>a * b\<bar>"
  then show "fmul (Fin a) (Fin b) = signed_inf (0 < a * b)"
    by (rule fmul_overflow)
qed

theorem process_scales_samples_witness:
  "gain_process_packet always_allocates
     (Some \<lparr>gain = Fin 3, log_cb = None, log_user_data = 0\<rparr>) ''in''
     \<lparr>packet_type = PACKET_TYPE_RAW_AUDIO,
      data = Some \<lparr>sample_rate = 48000, channels = 1,
                   samples = Some [Fin (1 / 2), Fin (- (1 / 4)),
                                   Fin (8388609 / 8388608), Fin (2 ^ 127)],
                   sample_count = 4\<rparr>,
      len = 24\<rparr>
     accepting_callback =
   Some (CResult_success,
         [(''out'',
           \<lparr>packet_type = PACKET_TYPE_RAW_AUDIO,
            data = Some \<lparr>sample_rate = 48000, channels = 1,
                         samples = Some [Fin (3 / 2), Fin (- (3 / 4)),
                                         Fin (6291457 / 2097152), PInf],
                         sample_count = 4\<rparr>,
            len = 24\<rparr>)])
   \<and> gain_process_packet never_allocates
     (Some \<lparr>gain = Fin 3, log_cb = None, log_user_data = 0\<rparr>) ''in''
     \<lparr>packet_type = PACKET_TYPE_RAW_AUDIO,
      data = Some \<lparr>sample_rate = 48000, channels = 1,
                   samples = Some [Fin (1 / 2), Fin (- (1 / 4)),
                                   Fin (8388609 / 8388608), Fin (2 ^ 127)],
                   sample_count = 4\<rparr>,
      len = 24\<rparr>
     accepting_callback =
   Some (\<lparr>success = False, error_message = Some ''Failed to allocate output buffer''\<rparr>, [])
   \<and> exports_streamkit_plugin_node_method_node_instance_process
       \<lparr>gain_linear = Fin 3\<rparr> ''in''
       (PACKET_AUDIO \<lparr>frame_sample_rate = 48000, frame_channels = 1,
                      frame_samples = [Fin (1 / 2), Fin (- (1 / 4)),
                                       Fin (8388609 / 8388608), Fin (2 ^ 127)]\<rparr>)
       (\<lambda>pin_name p. (True, [])) =
   ((True, None),
    [(''out'',
      PACKET_AUDIO \<lparr>frame_sample_rate = 48000, frame_channels = 1,
                     frame_samples = [Fin (3 / 2), Fin (- (3 / 4)),
                                      Fin (6291457 / 2097152), PInf]\<rparr>)])
   \<and> (2::real) ^ 128 - 2 ^ 103 \<le> \<bar>2 ^ 127 * 3\<bar>
   \<and> fmul (Fin (2 ^ 127)) (Fin 3) = PInf"
proof -
  let ?S = "[Fin (1 / 2), Fin (- (1 / 4)), Fin (8388609 / 8388608), Fin (2 ^ 127)]"
  let ?frame = "\<lparr>sample_rate = 48000, channels = 1, samples = Some ?S, sample_count = 4\<rparr>"
  let ?packet = "\<lparr>packet_type = PACKET_TYPE_RAW_AUDIO, data = Some ?frame, len = 24\<rparr>"
  let ?state = "\<lparr>gain = Fin 3, log_cb = None, log_user_data = 0\<rparr>"
  let ?audio = "\<lparr>frame_sample_rate = 48000, frame_channels = 1, frame_samples = ?S\<rparr>"
  have h1: "packet_type ?packet = PACKET_TYPE_RAW_AUDIO" by simp
  have h2: "data ?packet = Some ?frame" by simp
  have h3: "samples ?frame = Some ?S" by simp
  have h4: "sample_count ?frame = length ?S" by simp
  have m1: "always_allocates (length ?S * sizeof_float)"
    by (simp add: always_allocates_def)
  have m2: "\<not> never_allocates (length ?S * sizeof_float)"
    by (simp add: never_allocates_def)
  have big: "(2::real) ^ 128 - 2 ^ 103 \<le> \<bar>2 ^ 127 * 3\<bar>" by simp
  have products:
    "round_f32 (3 / 2) = Fin (3 / 2)"
    "round_f32 (- (3 / 4)) = Fin (- (3 / 4))"
    "round_f32 (25165827 / 8388608) = Fin (6291457 / 2097152)"
    "round_f32 (2 ^ 127 * 3) = PInf"
    using fmul_examples by simp_all
  show ?thesis
    using m1 m2 big products
      process_scales_samples [where malloc = always_allocates, OF h1 h2 h3 h4,
        of ?state "''in''" accepting_callback "\<lparr>gain_linear = Fin 3\<rparr>" "''in''" ?audio
           "\<lambda>pin_name p. (True, [])"]
      process_scales_samples [where malloc = never_allocates, OF h1 h2 h3 h4,
        of ?state "''in''" accepting_callback "\<lparr>gain_linear = Fin 3\<rparr>" "''in''" ?audio
           "\<lambda>pin_name p. (True, [])"]
    by (simp add: sizeof_CAudioFrame_def accepting_callback_def)
qed

text \<open>
  C1 as stated fails: a valid instance and a valid raw audio packet do not always lead
  to a packet on \<^verbatim>\<open>out\<close>. When the allocator has no block for the output buffer the
  native process function fails and the callback is never called.
\<close>

theorem process_without_buffer_sends_nothing:
  "gain_process_packet never_allocates
     (Some \<lparr>gain = Fin 2, log_cb = None, log_user_data = 0\<rparr>) ''in''
     \<lparr>packet_type = PACKET_TYPE_RAW_AUDIO,
      data = Some \<lparr>sample_rate = 48000, channels = 1,
                   samples = Some [Fin (1 / 2), Fin (- (1 / 4))],
                   sample_count = 2\<rparr>,
      len = 24\<rparr>
     accepting_callback =
   Some (\<lparr>success = False, error_message = Some ''Failed to allocate output buffer''\<rparr>, [])"
  by (simp add: gain_process_packet_def never_allocates_def CResult_error_def)



text \<open>
  C4. A packet whose tag is not raw audio is refused: the process function returns a
  failed result with a message and calls the output callback zero times. In the native
  plugin this holds for an instance handle (the message names the packet type) and for
  a null handle (the message names the handle); in the resource binding for every
  instance and every packet that is not the audio case.
\<close>

theorem other_packets_rejected:
  "packet_type packet \<noteq> PACKET_TYPE_RAW_AUDIO \<Longrightarrow>
   gain_process_packet malloc (Some state) pin packet cb =
     Some (\<lparr>success = False,
            error_message = Some ''Gain plugin only accepts audio packets''\<rparr>, [])
   \<and> gain_process_packet malloc None pin packet cb =
     Some (\<lparr>success = False, error_message = Some ''Null handle''\<rparr>, [])
   \<and> exports_streamkit_plugin_node_method_node_instance_process wstate wpin (PACKET_OTHER t) send =
     ((False, Some ''Gain filter only accepts audio packets''), [])"
  by (simp add: gain_process_packet_def CResult_error_def
        exports_streamkit_plugin_node_method_node_instance_process_def)

theorem other_packets_rejected_witness:
  "PACKET_TYPE_TEXT \<noteq> PACKET_TYPE_RAW_AUDIO
   \<and> gain_process_packet always_allocates
      (Some \<lparr>gain = Fin 2, log_cb = None, log_user_data = 0\<rparr>) ''in''
      \<lparr>packet_type = PACKET_TYPE_TEXT, data = None, len = 6\<rparr>
      (\<lambda>pin_name p. CResult_success) =
     Some (\<lparr>success = False,
            error_message = Some ''Gain plugin only accepts audio packets''\<rparr>, [])
   \<and> exports_streamkit_plugin_node_method_node_instance_process \<lparr>gain_linear = Fin 2\<rparr> ''in''
        (PACKET_OTHER 1) (\<lambda>pin_name p. (True, [])) =
     ((False, Some ''Gain filter only accepts audio packets''), [])"
  using other_packets_rejected
    [of "\<lparr>packet_type = PACKET_TYPE_TEXT, data = None, len = 6\<rparr>" always_allocates
       "\<lparr>gain = Fin 2, log_cb = None, log_user_data = 0\<rparr>" "''in''"
       "\<lambda>pin_name p. CResult_success" "\<lparr>gain_linear = Fin 2\<rparr>" "''in''" 1
       "\<lambda>pin_name p. (True, [])"]
  by simp

text \<open>
  C8. \<open>gain_flush\<close> returns success, with no error message, for every handle and
  calls the output callback zero times.
\<close>

theorem flush_sends_nothing:
  "gain_flush handle cb = (\<lparr>success = True, error_message = None\<rparr>, [])"
  by (simp add: gain_flush_def CResult_success_def)

text \<open>
  C10. In the native plugin a null handle makes \<open>gain_process_packet\<close> and
  \<open>gain_update_params\<close> fail with the message \<^verbatim>\<open>Null handle\<close>, and a raw audio packet
  whose frame pointer or samples pointer is null makes \<open>gain_process_packet\<close> fail
  with \<^verbatim>\<open>Invalid audio frame\<close>; in each case the output callback is called zero
  times.
\<close>

theorem null_pointers_rejected:
  "gain_process_packet malloc None pin packet cb =
     Some (\<lparr>success = False, error_message = Some ''Null handle''\<rparr>, [])
   \<and> gain_update_params strtof None params =
     (\<lparr>success = False, error_message = Some ''Null handle''\<rparr>, None)
   \<and> (packet_type packet = PACKET_TYPE_RAW_AUDIO \<and>
       (data packet = None \<or> (\<exists>frame. data packet = Some frame \<and> samples frame = None)) \<longrightarrow>
       gain_process_packet malloc (Some state) pin packet cb =
         Some (\<lparr>success = False, error_message = Some ''Invalid audio frame''\<rparr>, []))"
  by (auto simp: gain_process_packet_def gain_update_params_def CResult_error_def)

theorem null_pointers_rejected_witness:
  "gain_process_packet always_allocates
      (Some \<lparr>gain = Fin 2, log_cb = None, log_user_data = 0\<rparr>) ''in''
      \<lparr>packet_type = PACKET_TYPE_RAW_AUDIO,
       data = Some \<lparr>sample_rate = 48000, channels = 1, samples = None, sample_count = 4\<rparr>,
       len = 24\<rparr>
      (\<lambda>pin_name p. CResult_success) =
     Some (\<lparr>success = False, error_message = Some ''Invalid audio frame''\<rparr>, [])
   \<and> gain_process_packet always_allocates
      (Some \<lparr>gain = Fin 2, log_cb = None, log_user_data = 0\<rparr>) ''in''
      \<lparr>packet_type = PACKET_TYPE_RAW_AUDIO, data = None, len = 24\<rparr>
      (\<lambda>pin_name p. CResult_success) =
     Some (\<lparr>success = False, error_message = Some ''Invalid audio frame''\<rparr>, [])"
  using null_pointers_rejected
    [of always_allocates "''in''"
       "\<lparr>packet_type = PACKET_TYPE_RAW_AUDIO,
         data = Some \<lparr>sample_rate = 48000, channels = 1, samples = None, sample_count = 4\<rparr>,
         len = 24\<rparr>"
       "\<lambda>pin_name p. CResult_success" c_strtof None
       "\<lparr>gain = Fin 2, log_cb = None, log_user_data = 0\<rparr>"]
    null_pointers_rejected
    [of always_allocates "''in''"
       "\<lparr>packet_type = PACKET_TYPE_RAW_AUDIO, data = None, len = 24\<rparr>"
       "\<lambda>pin_name p. CResult_success" c_strtof None
       "\<lparr>gain = Fin 2, log_cb = None, log_user_data = 0\<rparr>"]
  by simp

subsection \<open>Creating an instance and updating its parameters\<close>

lemma parse_gain_below:
  assumes "requested_gain strtof params = Some v" and "flt v MIN_GAIN"
  shows "parse_gain strtof params = MIN_GAIN"
proof -
  have "\<not> fgt MIN_GAIN MAX_GAIN"
    using flt_MIN_MAX(1) flt_asym by (auto simp: fgt_def)
  with assms show ?thesis by (simp add: parse_gain_requested)
qed

lemma parse_gain_above:
  assumes "requested_gain strtof params = Some v" and "fgt v MAX_GAIN"
  shows "parse_gain strtof params = MAX_GAIN"
proof -
  from assms(2) have "flt MIN_GAIN v"
    using flt_MIN_MAX(1) by (auto simp: fgt_def intro: flt_trans)
  then have "\<not> flt v MIN_GAIN" by (rule flt_asym)
  with assms show ?thesis by (simp add: parse_gain_requested)
qed

lemma parse_gain_default:
  "requested_gain strtof params = None \<Longrightarrow> parse_gain strtof params = DEFAULT_GAIN"
  by (simp add: parse_gain_requested)

lemma clamp_f32_zero_db: "clamp_f32 (Fin 0) MIN_GAIN_DB MAX_GAIN_DB = Fin 0"
  by (simp add: clamp_f32_def fgt_def MIN_GAIN_DB_def MAX_GAIN_DB_def)

lemma requested_gain_db_present:
  "requested_gain_db sscanf mp = Some d \<Longrightarrow> \<not> absent_or_empty mp"
  using requested_gain_db_absent [of mp sscanf] by auto

lemma gain_db_of_payload:
  "\<not> absent_or_empty (Some ps) \<Longrightarrow>
   clamp_f32 (parse_gain_db sscanf (str_ptr ps) (str_len ps)) MIN_GAIN_DB MAX_GAIN_DB =
     (case requested_gain_db sscanf (Some ps) of
        None \<Rightarrow> Fin 0
      | Some v \<Rightarrow> clamp_f32 v MIN_GAIN_DB MAX_GAIN_DB)"
  by (simp add: absent_or_empty_def parse_gain_db_requested clamp_f32_zero_db
        split: option.splits)

lemma constructor_gain:
  assumes m: "malloc sizeof_gain_state_t"
  shows "exports_streamkit_plugin_node_constructor_node_instance sscanf malloc mp =
     Some \<lparr>gain_linear =
             db_to_linear
               (case requested_gain_db sscanf mp of
                  None \<Rightarrow> Fin 0
                | Some v \<Rightarrow> clamp_f32 v MIN_GAIN_DB MAX_GAIN_DB)\<rparr>"
proof (cases mp)
  case None
  with m show ?thesis
    by (simp add: exports_streamkit_plugin_node_constructor_node_instance_def
          requested_gain_db_def)
next
  case (Some ps)
  show ?thesis
  proof (cases "absent_or_empty (Some ps)")
    case True
    then have "requested_gain_db sscanf (Some ps) = None"
      by (rule requested_gain_db_absent)
    with True Some m show ?thesis
      by (auto simp: exports_streamkit_plugin_node_constructor_node_instance_def
            absent_or_empty_def)
  next
    case False
    from gain_db_of_payload [OF False, of sscanf] False Some m show ?thesis
      by (auto simp: exports_streamkit_plugin_node_constructor_node_instance_def
            absent_or_empty_def)
  qed
qed

lemma update_params_gain:
  "exports_streamkit_plugin_node_method_node_instance_update_params sscanf st mp =
     ((True, None),
      if absent_or_empty mp then st
      else st\<lparr>gain_linear :=
                db_to_linear
                  (case requested_gain_db sscanf mp of
                     None \<Rightarrow> Fin 0
                   | Some v \<Rightarrow> clamp_f32 v MIN_GAIN_DB MAX_GAIN_DB)\<rparr>)"
proof (cases mp)
  case None
  then show ?thesis
    by (simp add: exports_streamkit_plugin_node_method_node_instance_update_params_def
          absent_or_empty_def)
next
  case (Some ps)
  show ?thesis
  proof (cases "absent_or_empty (Some ps)")
    case True
    with Some show ?thesis
      by (auto simp: exports_streamkit_plugin_node_method_node_instance_update_params_def
            absent_or_empty_def)
  next
    case False
    from gain_db_of_payload [OF False, of sscanf] False Some show ?thesis
      by (auto simp: exports_streamkit_plugin_node_method_node_instance_update_params_def
            absent_or_empty_def Let_def)
  qed
qed

lemma native_create_gain:
  "malloc sizeof_GainPluginState \<Longrightarrow>
   gain_create_instance strtof malloc params lcb lud =
     Some \<lparr>gain = parse_gain strtof params, log_cb = lcb, log_user_data = lud\<rparr>"
  by (simp add: gain_create_instance_def)

lemma native_update_gain:
  "gain_update_params strtof (Some st) params =
     (CResult_success, Some (st\<lparr>gain := parse_gain strtof params\<rparr>))"
  by (simp add: gain_update_params_def)

text \<open>
  The payloads without a requested value are the absent one, the empty one, one that
  lacks the key and one whose value does not convert.
\<close>

lemma requested_gain_none_cases:
  "requested_gain strtof None = None"
  "requested_gain strtof (Some []) = None"
  "strstr js ''\"gain\"'' = None \<Longrightarrow> requested_gain strtof (Some js) = None"
  by (simp_all add: requested_gain_def)

lemma create_example:
  "gain_create_instance c_strtof always_allocates (Some ''{\"gain\": 2.0}'') None 0 =
     Some \<lparr>gain = Fin 2, log_cb = None, log_user_data = 0\<rparr>"
  by (simp add: gain_create_instance_def always_allocates_def parse_gain_def c_strtof_def
        isspace_def isdigit_def tolower_def digits_value_def exponent_part_def fgt_def
        round_f32_values MIN_GAIN_def MAX_GAIN_def Let_def)

text \<open>
  C5. When the payload is absent, empty or malformed (it lacks the key, or no number
  converts at the value), so that it requests no value, creation succeeds whenever the
  allocator returns the block for the state, and the instance has the default of the
  schema: gain 1.0 in the native plugin, and the linear gain 1.0 of 0.0 dB in the
  resource binding.
\<close>

theorem create_falls_back_to_default:
  "(requested_gain strtof params = None \<and> malloc sizeof_GainPluginState \<longrightarrow>
      gain_create_instance strtof malloc params lcb lud =
        Some \<lparr>gain = Fin 1, log_cb = lcb, log_user_data = lud\<rparr>)
   \<and> (requested_gain_db sscanf mp = None \<and> wmalloc sizeof_gain_state_t \<longrightarrow>
      exports_streamkit_plugin_node_constructor_node_instance sscanf wmalloc mp =
        Some \<lparr>gain_linear = Fin 1\<rparr>)"
  by (simp add: native_create_gain parse_gain_default DEFAULT_GAIN_def constructor_gain
        db_to_linear_zero)

theorem create_falls_back_to_default_witness:
  "requested_gain c_strtof (Some ''{\"gain\": \"loud\"}'') = None
   \<and> always_allocates sizeof_GainPluginState
   \<and> gain_create_instance c_strtof always_allocates (Some ''{\"gain\": \"loud\"}'') None 0 =
       Some \<lparr>gain = Fin 1, log_cb = None, log_user_data = 0\<rparr>
   \<and> requested_gain_db c_sscanf_f (Some \<lparr>str_ptr = Some ''{\"volume\": 3}'', str_len = 13\<rparr>)
       = None
   \<and> always_allocates sizeof_gain_state_t
   \<and> exports_streamkit_plugin_node_constructor_node_instance c_sscanf_f always_allocates
       (Some \<lparr>str_ptr = Some ''{\"volume\": 3}'', str_len = 13\<rparr>) =
       Some \<lparr>gain_linear = Fin 1\<rparr>"
proof -
  have r: "requested_gain c_strtof (Some ''{\"gain\": \"loud\"}'') = None"
    by (simp add: requested_gain_def c_strtof_def isspace_def isdigit_def tolower_def
          Let_def)
  have d: "requested_gain_db c_sscanf_f
             (Some \<lparr>str_ptr = Some ''{\"volume\": 3}'', str_len = 13\<rparr>) = None"
    by (simp add: requested_gain_db_def)
  have a: "always_allocates sizeof_GainPluginState" "always_allocates sizeof_gain_state_t"
    by (simp_all add: always_allocates_def)
  show ?thesis
    using r d a
      create_falls_back_to_default
        [of c_strtof "Some ''{\"gain\": \"loud\"}''" always_allocates None 0 c_sscanf_f
            "Some \<lparr>str_ptr = Some ''{\"volume\": 3}'', str_len = 13\<rparr>" always_allocates]
    by simp
qed

text \<open>
  C3. A requested value below the minimum of the schema is stored as the minimum, one
  above the maximum as the maximum, by creation and by an update alike, and the bound
  differs from the requested value. In the resource binding the value and the bounds
  are in decibels and the stored field is the linear gain of the bound.
\<close>

theorem out_of_range_gain_clamped:
  assumes "malloc sizeof_GainPluginState" and "wmalloc sizeof_gain_state_t"
  shows "(requested_gain strtof params = Some g \<and> flt g MIN_GAIN \<longrightarrow>
            gain_create_instance strtof malloc params lcb lud =
              Some \<lparr>gain = MIN_GAIN, log_cb = lcb, log_user_data = lud\<rparr>
            \<and> gain_update_params strtof (Some st) params =
              (CResult_success, Some (st\<lparr>gain := MIN_GAIN\<rparr>))
            \<and> MIN_GAIN \<noteq> g)
       \<and> (requested_gain strtof params = Some g \<and> fgt g MAX_GAIN \<longrightarrow>
            gain_create_instance strtof malloc params lcb lud =
              Some \<lparr>gain = MAX_GAIN, log_cb = lcb, log_user_data = lud\<rparr>
            \<and> gain_update_params strtof (Some st) params =
              (CResult_success, Some (st\<lparr>gain := MAX_GAIN\<rparr>))
            \<and> MAX_GAIN \<noteq> g)
       \<and> (requested_gain_db sscanf mp = Some d \<and> flt d MIN_GAIN_DB \<longrightarrow>
            exports_streamkit_plugin_node_constructor_node_instance sscanf wmalloc mp =
              Some \<lparr>gain_linear = db_to_linear MIN_GAIN_DB\<rparr>
            \<and> exports_streamkit_plugin_node_method_node_instance_update_params sscanf wst mp =
              ((True, None), wst\<lparr>gain_linear := db_to_linear MIN_GAIN_DB\<rparr>)
            \<and> MIN_GAIN_DB \<noteq> d)
       \<and> (requested_gain_db sscanf mp = Some d \<and> fgt d MAX_GAIN_DB \<longrightarrow>
            exports_streamkit_plugin_node_constructor_node_instance sscanf wmalloc mp =
              Some \<lparr>gain_linear = db_to_linear MAX_GAIN_DB\<rparr>
            \<and> exports_streamkit_plugin_node_method_node_instance_update_params sscanf wst mp =
              ((True, None), wst\<lparr>gain_linear := db_to_linear MAX_GAIN_DB\<rparr>)
            \<and> MAX_GAIN_DB \<noteq> d)"
proof (intro conjI impI; elim conjE)
  assume r: "requested_gain strtof params = Some g" and b: "flt g MIN_GAIN"
  from parse_gain_below [OF r b] assms(1)
  show "gain_create_instance strtof malloc params lcb lud =
          Some \<lparr>gain = MIN_GAIN, log_cb = lcb, log_user_data = lud\<rparr>"
    by (simp add: native_create_gain)
  from parse_gain_below [OF r b]
  show "gain_update_params strtof (Some st) params =
          (CResult_success, Some (st\<lparr>gain := MIN_GAIN\<rparr>))"
    by (simp add: native_update_gain)
  from b flt_irrefl show "MIN_GAIN \<noteq> g" by auto
next
  assume r: "requested_gain strtof params = Some g" and b: "fgt g MAX_GAIN"
  from parse_gain_above [OF r b] assms(1)
  show "gain_create_instance strtof malloc params lcb lud =
          Some \<lparr>gain = MAX_GAIN, log_cb = lcb, log_user_data = lud\<rparr>"
    by (simp add: native_create_gain)
  from parse_gain_above [OF r b]
  show "gain_update_params strtof (Some st) params =
          (CResult_success, Some (st\<lparr>gain := MAX_GAIN\<rparr>))"
    by (simp add: native_update_gain)
  from b flt_irrefl show "MAX_GAIN \<noteq> g" by (auto simp: fgt_def)
next
  assume r: "requested_gain_db sscanf mp = Some d" and b: "flt d MIN_GAIN_DB"
  from r b assms(2)
  show "exports_streamkit_plugin_node_constructor_node_instance sscanf wmalloc mp =
          Some \<lparr>gain_linear = db_to_linear MIN_GAIN_DB\<rparr>"
    by (simp add: constructor_gain clamp_f32_below)
  from r b requested_gain_db_present [OF r]
  show "exports_streamkit_plugin_node_method_node_instance_update_params sscanf wst mp =
          ((True, None), wst\<lparr>gain_linear := db_to_linear MIN_GAIN_DB\<rparr>)"
    by (simp add: update_params_gain clamp_f32_below)
  from b flt_irrefl show "MIN_GAIN_DB \<noteq> d" by auto
next
  assume r: "requested_gain_db sscanf mp = Some d" and b: "fgt d MAX_GAIN_DB"
  from r b assms(2)
  show "exports_streamkit_plugin_node_constructor_node_instance sscanf wmalloc mp =
          Some \<lparr>gain_linear = db_to_linear MAX_GAIN_DB\<rparr>"
    by (simp add: constructor_gain clamp_f32_above [OF flt_MIN_MAX(2)])
  from r b requested_gain_db_present [OF r]
  show "exports_streamkit_plugin_node_method_node_instance_update_params sscanf wst mp =
          ((True, None), wst\<lparr>gain_linear := db_to_linear MAX_GAIN_DB\<rparr>)"
    by (simp add: update_params_gain clamp_f32_above [OF flt_MIN_MAX(2)])
  from b flt_irrefl show "MAX_GAIN_DB \<noteq> d" by (auto simp: fgt_def)
qed

theorem out_of_range_gain_clamped_witness:
  "requested_gain c_strtof (Some ''{\"gain\": -3}'') = Some (Fin (- 3))
   \<and> flt (Fin (- 3)) MIN_GAIN
   \<and> gain_create_instance c_strtof always_allocates (Some ''{\"gain\": -3}'') None 0 =
       Some \<lparr>gain = Fin 0, log_cb = None, log_user_data = 0\<rparr>
   \<and> requested_gain c_strtof (Some ''{\"gain\": 9}'') = Some (Fin 9)
   \<and> fgt (Fin 9) MAX_GAIN
   \<and> gain_update_params c_strtof (Some \<lparr>gain = Fin 1, log_cb = None, log_user_data = 0\<rparr>)
       (Some ''{\"gain\": 9}'') =
       (CResult_success, Some \<lparr>gain = Fin 4, log_cb = None, log_user_data = 0\<rparr>)
   \<and> requested_gain_db c_sscanf_f
       (Some \<lparr>str_ptr = Some ''{\"gain_db\": -80}'', str_len = 16\<rparr>) = Some (Fin (- 80))
   \<and> flt (Fin (- 80)) MIN_GAIN_DB
   \<and> exports_streamkit_plugin_node_constructor_node_instance c_sscanf_f always_allocates
       (Some \<lparr>str_ptr = Some ''{\"gain_db\": -80}'', str_len = 16\<rparr>) =
       Some \<lparr>gain_linear = db_to_linear (Fin (- 60))\<rparr>
   \<and> requested_gain_db c_sscanf_f
       (Some \<lparr>str_ptr = Some ''{\"gain_db\": 35.5}'', str_len = 17\<rparr>) = Some (Fin (71 / 2))
   \<and> fgt (Fin (71 / 2)) MAX_GAIN_DB
   \<and> exports_streamkit_plugin_node_method_node_instance_update_params c_sscanf_f
       \<lparr>gain_linear = Fin 1\<rparr>
       (Some \<lparr>str_ptr = Some ''{\"gain_db\": 35.5}'', str_len = 17\<rparr>) =
       ((True, None), \<lparr>gain_linear = db_to_linear (Fin 20)\<rparr>)"
proof -
  have a: "always_allocates sizeof_GainPluginState" "always_allocates sizeof_gain_state_t"
    by (simp_all add: always_allocates_def)
  have r1: "requested_gain c_strtof (Some ''{\"gain\": -3}'') = Some (Fin (- 3))"
    by (simp add: requested_gain_def c_strtof_def isspace_def isdigit_def tolower_def
          digits_value_def exponent_part_def round_f32_values Let_def)
  have r2: "requested_gain c_strtof (Some ''{\"gain\": 9}'') = Some (Fin 9)"
    by (simp add: requested_gain_def c_strtof_def isspace_def isdigit_def tolower_def
          digits_value_def exponent_part_def round_f32_values Let_def)
  have d1: "requested_gain_db c_sscanf_f
              (Some \<lparr>str_ptr = Some ''{\"gain_db\": -80}'', str_len = 16\<rparr>) =
            Some (Fin (- 80))"
    by (simp add: requested_gain_db_def c_sscanf_f_def c_strtof_def isspace_def isdigit_def
          tolower_def digits_value_def exponent_part_def round_f32_values Let_def)
  have d2: "requested_gain_db c_sscanf_f
              (Some \<lparr>str_ptr = Some ''{\"gain_db\": 35.5}'', str_len = 17\<rparr>) =
            Some (Fin (71 / 2))"
    by (simp add: requested_gain_db_def c_sscanf_f_def c_strtof_def isspace_def isdigit_def
          tolower_def digits_value_def exponent_part_def round_f32_values Let_def)
  have f: "flt (Fin (- 3)) MIN_GAIN" "fgt (Fin 9) MAX_GAIN"
      "flt (Fin (- 80)) MIN_GAIN_DB" "fgt (Fin (71 / 2)) MAX_GAIN_DB"
    by (simp_all add: fgt_def MIN_GAIN_def MAX_GAIN_def MIN_GAIN_DB_def MAX_GAIN_DB_def)
  show ?thesis
    using r1 r2 d1 d2 f
      out_of_range_gain_clamped
        [where malloc = always_allocates and wmalloc = always_allocates
           and strtof = c_strtof and params = "Some ''{\"gain\": -3}''" and g = "Fin (- 3)"
           and lcb = None and lud = 0
           and st = "\<lparr>gain = Fin 1, log_cb = None, log_user_data = 0\<rparr>"
           and sscanf = c_sscanf_f
           and mp = "Some \<lparr>str_ptr = Some ''{\"gain_db\": -80}'', str_len = 16\<rparr>"
           and d = "Fin (- 80)" and wst = "\<lparr>gain_linear = Fin 1\<rparr>", OF a]
      out_of_range_gain_clamped
        [where malloc = always_allocates and wmalloc = always_allocates
           and strtof = c_strtof and params = "Some ''{\"gain\": 9}''" and g = "Fin 9"
           and lcb = None and lud = 0
           and st = "\<lparr>gain = Fin 1, log_cb = None, log_user_data = 0\<rparr>"
           and sscanf = c_sscanf_f
           and mp = "Some \<lparr>str_ptr = Some ''{\"gain_db\": 35.5}'', str_len = 17\<rparr>"
           and d = "Fin (71 / 2)" and wst = "\<lparr>gain_linear = Fin 1\<rparr>", OF a]
    by (simp add: MIN_GAIN_def MAX_GAIN_def MIN_GAIN_DB_def MAX_GAIN_DB_def)
qed

text \<open>
  C2, as the code has it. An update on a valid instance returns success. In the
  resource binding an absent or empty payload leaves the gain unchanged. In both
  plugins a payload that is present and not empty but lacks the key, or has no number
  at the value, sets the gain to the default of the schema (linear 1.0), whatever it
  was before.
\<close>

theorem update_params_fallback:
  "fst (gain_update_params strtof (Some st) params) = CResult_success
   \<and> (params = Some js \<and> js \<noteq> [] \<and> requested_gain strtof params = None \<longrightarrow>
        snd (gain_update_params strtof (Some st) params) = Some (st\<lparr>gain := Fin 1\<rparr>))
   \<and> fst (exports_streamkit_plugin_node_method_node_instance_update_params sscanf wst mp) =
        (True, None)
   \<and> (absent_or_empty mp \<longrightarrow>
        snd (exports_streamkit_plugin_node_method_node_instance_update_params sscanf wst mp) =
          wst)
   \<and> (\<not> absent_or_empty mp \<and> requested_gain_db sscanf mp = None \<longrightarrow>
        snd (exports_streamkit_plugin_node_method_node_instance_update_params sscanf wst mp) =
          wst\<lparr>gain_linear := Fin 1\<rparr>)"
proof -
  have "requested_gain strtof params = None \<Longrightarrow>
        snd (gain_update_params strtof (Some st) params) = Some (st\<lparr>gain := Fin 1\<rparr>)"
    by (simp add: native_update_gain parse_gain_default DEFAULT_GAIN_def)
  then show ?thesis
    by (auto simp: native_update_gain update_params_gain db_to_linear_zero)
qed

text \<open>
  C2 as stated fails: a payload that lacks the key does not keep the previous gain.
  After an update with the payload \<^verbatim>\<open>{}\<close> the native gain 2.0 has become 1.0, and
  the linear gain 10.0 (20 dB) of the resource binding has become 1.0.
\<close>

theorem update_params_resets_gain:
  "snd (gain_update_params c_strtof
          (Some \<lparr>gain = Fin 2, log_cb = None, log_user_data = 0\<rparr>) (Some ''{}'')) =
     Some \<lparr>gain = Fin 1, log_cb = None, log_user_data = 0\<rparr>
   \<and> snd (gain_update_params c_strtof
          (Some \<lparr>gain = Fin 2, log_cb = None, log_user_data = 0\<rparr>) (Some ''{}'')) \<noteq>
     Some \<lparr>gain = Fin 2, log_cb = None, log_user_data = 0\<rparr>
   \<and> snd (exports_streamkit_plugin_node_method_node_instance_update_params c_sscanf_f
          \<lparr>gain_linear = Fin 10\<rparr> (Some \<lparr>str_ptr = Some ''{}'', str_len = 2\<rparr>)) =
     \<lparr>gain_linear = Fin 1\<rparr>
   \<and> snd (exports_streamkit_plugin_node_method_node_instance_update_params c_sscanf_f
          \<lparr>gain_linear = Fin 10\<rparr> (Some \<lparr>str_ptr = Some ''{}'', str_len = 2\<rparr>)) \<noteq>
     \<lparr>gain_linear = Fin 10\<rparr>"
  by (simp add: gain_update_params_def parse_gain_def DEFAULT_GAIN_def
        exports_streamkit_plugin_node_method_node_instance_update_params_def
        parse_gain_db_def clamp_f32_zero_db db_to_linear_zero)

theorem update_params_fallback_witness:
  "requested_gain c_strtof (Some ''{\"gain\": \"loud\"}'') = None
   \<and> snd (gain_update_params c_strtof
          (Some \<lparr>gain = Fin 2, log_cb = None, log_user_data = 0\<rparr>)
          (Some ''{\"gain\": \"loud\"}'')) =
     Some \<lparr>gain = Fin 1, log_cb = None, log_user_data = 0\<rparr>
   \<and> absent_or_empty (Some \<lparr>str_ptr = Some [], str_len = 0\<rparr>)
   \<and> snd (exports_streamkit_plugin_node_method_node_instance_update_params c_sscanf_f
          \<lparr>gain_linear = Fin 10\<rparr> (Some \<lparr>str_ptr = Some [], str_len = 0\<rparr>)) =
     \<lparr>gain_linear = Fin 10\<rparr>
   \<and> \<not> absent_or_empty (Some \<lparr>str_ptr = Some ''{\"gain_db\": high}'', str_len = 17\<rparr>)
   \<and> requested_gain_db c_sscanf_f
         (Some \<lparr>str_ptr = Some ''{\"gain_db\": high}'', str_len = 17\<rparr>) = None
   \<and> snd (exports_streamkit_plugin_node_method_node_instance_update_params c_sscanf_f
          \<lparr>gain_linear = Fin 10\<rparr>
          (Some \<lparr>str_ptr = Some ''{\"gain_db\": high}'', str_len = 17\<rparr>)) =
     \<lparr>gain_linear = Fin 1\<rparr>"
proof -
  have r: "requested_gain c_strtof (Some ''{\"gain\": \"loud\"}'') = None"
    by (simp add: requested_gain_def c_strtof_def isspace_def isdigit_def tolower_def
          Let_def)
  have a: "absent_or_empty (Some \<lparr>str_ptr = Some [], str_len = 0\<rparr>)"
    by (simp add: absent_or_empty_def)
  have n: "\<not> absent_or_empty (Some \<lparr>str_ptr = Some ''{\"gain_db\": high}'', str_len = 17\<rparr>)"
    by (simp add: absent_or_empty_def)
  have d: "requested_gain_db c_sscanf_f
             (Some \<lparr>str_ptr = Some ''{\"gain_db\": high}'', str_len = 17\<rparr>) = None"
    by (simp add: requested_gain_db_def c_sscanf_f_def c_strtof_def isspace_def isdigit_def
          tolower_def Let_def)
  show ?thesis
    using r a n d
      update_params_fallback
        [of c_strtof "\<lparr>gain = Fin 2, log_cb = None, log_user_data = 0\<rparr>"
            "Some ''{\"gain\": \"loud\"}''" "''{\"gain\": \"loud\"}''" c_sscanf_f
            "\<lparr>gain_linear = Fin 10\<rparr>" "Some \<lparr>str_ptr = Some [], str_len = 0\<rparr>"]
      update_params_fallback
        [of c_strtof "\<lparr>gain = Fin 2, log_cb = None, log_user_data = 0\<rparr>"
            "Some ''{\"gain\": \"loud\"}''" "''{\"gain\": \"loud\"}''" c_sscanf_f
            "\<lparr>gain_linear = Fin 10\<rparr>"
            "Some \<lparr>str_ptr = Some ''{\"gain_db\": high}'', str_len = 17\<rparr>"]
    by simp
qed

text \<open>
  The clamps keep every value but a NaN within the bounds.
\<close>

lemma parse_gain_bounds:
  "parse_gain strtof params = NaN \<or>
   within_bounds MIN_GAIN MAX_GAIN (parse_gain strtof params)"
proof (cases "requested_gain strtof params")
  case None
  then show ?thesis
    by (simp add: parse_gain_default DEFAULT_GAIN_def within_bounds_def fle_def
          MIN_GAIN_def MAX_GAIN_def)
next
  case (Some v)
  then show ?thesis
    by (cases v)
      (auto simp: parse_gain_requested within_bounds_def fle_def fgt_def
         MIN_GAIN_def MAX_GAIN_def)
qed

lemma clamp_f32_db_bounds:
  "v = NaN \<or> within_bounds MIN_GAIN_DB MAX_GAIN_DB (clamp_f32 v MIN_GAIN_DB MAX_GAIN_DB)"
  by (cases v)
    (auto simp: clamp_f32_def within_bounds_def fle_def fgt_def MIN_GAIN_DB_def
       MAX_GAIN_DB_def)

text \<open>
  C6. The stored gain is not always within the range of the schema: both comparisons
  of a clamp are false for a NaN, which \<^verbatim>\<open>strtof\<close> and \<^verbatim>\<open>sscanf\<close> convert from the
  text \<^verbatim>\<open>nan\<close>. Creation with the payload \<^verbatim>\<open>{"gain": nan}\<close> stores a NaN in the native
  plugin, and \<^verbatim>\<open>{"gain_db": nan}\<close> does in the resource binding.
\<close>

theorem clamp_passes_nan:
  "gain_create_instance c_strtof always_allocates (Some ''{\"gain\": nan}'') None 0 =
     Some \<lparr>gain = NaN, log_cb = None, log_user_data = 0\<rparr>
   \<and> \<not> within_bounds MIN_GAIN MAX_GAIN NaN
   \<and> exports_streamkit_plugin_node_constructor_node_instance c_sscanf_f always_allocates
       (Some \<lparr>str_ptr = Some ''{\"gain_db\": nan}'', str_len = 16\<rparr>) =
     Some \<lparr>gain_linear = NaN\<rparr>"
proof -
  have "parse_gain c_strtof (Some ''{\"gain\": nan}'') = NaN"
    by (simp add: parse_gain_def c_strtof_def isspace_def isdigit_def tolower_def
          fgt_def Let_def)
  moreover have "parse_gain_db c_sscanf_f (Some ''{\"gain_db\": nan}'') 16 = NaN"
    by (simp add: parse_gain_db_def c_sscanf_f_def c_strtof_def isspace_def isdigit_def
          tolower_def Let_def)
  ultimately show ?thesis
    by (simp add: gain_create_instance_def always_allocates_def within_bounds_def fle_def
          exports_streamkit_plugin_node_constructor_node_instance_def clamp_f32_NaN
          db_to_linear_def)
qed

subsection \<open>Releasing the instance\<close>

lemma cleanup_frees:
  assumes "p \<noteq> 0" and "live h p = Some st"
  shows "exports_streamkit_plugin_node_method_node_instance_cleanup p h =
           Some (h\<lparr>live := (live h)(p := None), freed := freed h @ [p]\<rparr>)"
  using assms
  by (simp add: exports_streamkit_plugin_node_method_node_instance_cleanup_def c_free_def)

lemma cleanup_twice_undefined:
  assumes "p \<noteq> 0" and "live h p = Some st"
  shows "Option.bind (exports_streamkit_plugin_node_method_node_instance_cleanup p h)
           (exports_streamkit_plugin_node_method_node_instance_cleanup p) = None"
  using assms
  by (simp add: exports_streamkit_plugin_node_method_node_instance_cleanup_def c_free_def)

text \<open>
  C7, as the code has it. In the resource binding the cleanup method releases the
  state of the instance and the destructor releases nothing: cleanup followed by the
  destructor on a live instance frees its block exactly once, and the destructor
  leaves every heap as it is.
\<close>

theorem cleanup_then_destructor_frees_once:
  "(p \<noteq> 0 \<and> live h p = Some st \<longrightarrow>
      Option.bind (exports_streamkit_plugin_node_method_node_instance_cleanup p h)
        (exports_streamkit_plugin_node_node_instance_destructor p) =
      Some (h\<lparr>live := (live h)(p := None), freed := freed h @ [p]\<rparr>))
   \<and> exports_streamkit_plugin_node_node_instance_destructor p h = Some h"
  by (simp add: cleanup_frees exports_streamkit_plugin_node_node_instance_destructor_def)

theorem cleanup_then_destructor_frees_once_witness:
  "(1::nat) \<noteq> 0
   \<and> live (one_block 1 \<lparr>gain_linear = Fin 1\<rparr>) 1 = Some \<lparr>gain_linear = Fin 1\<rparr>
   \<and> Option.bind
       (exports_streamkit_plugin_node_method_node_instance_cleanup 1
          (one_block 1 \<lparr>gain_linear = Fin 1\<rparr>))
       (exports_streamkit_plugin_node_node_instance_destructor 1) =
     Some \<lparr>live = Map.empty, freed = [1]\<rparr>"
  using cleanup_then_destructor_frees_once
    [of 1 "one_block 1 \<lparr>gain_linear = Fin 1\<rparr>" "\<lparr>gain_linear = Fin 1\<rparr>"]
  by (simp add: one_block_def)

text \<open>
  C7 as stated fails in its first part: the destructor performs no release. Run on a
  live instance that was never cleaned up, it leaves the block allocated.
\<close>

theorem destructor_releases_nothing:
  "exports_streamkit_plugin_node_node_instance_destructor 1
     (one_block 1 \<lparr>gain_linear = Fin 1\<rparr>) = Some (one_block 1 \<lparr>gain_linear = Fin 1\<rparr>)
   \<and> live (one_block 1 \<lparr>gain_linear = Fin 1\<rparr>) 1 = Some \<lparr>gain_linear = Fin 1\<rparr>
   \<and> freed (one_block 1 \<lparr>gain_linear = Fin 1\<rparr>) = []"
  by (simp add: exports_streamkit_plugin_node_node_instance_destructor_def one_block_def)

end
